theory Spec2Isabelle
  imports Complex_Main "HOL-Library.Sublist" "HOL-Library.AList"
begin

section \<open>Python values\<close>

text \<open>
  The repository passes JSON-shaped data around as \<^verbatim>\<open>Dict[str, Any]\<close>.  A value is one of
  Python's \<^verbatim>\<open>None\<close>, a bool, an int, a number with a fractional part (\<^verbatim>\<open>float\<close> or
  \<^verbatim>\<open>Decimal\<close>), a string, a list or a dict.  A dict is an association list in insertion
  order; lookups go through \<^const>\<open>map_of\<close>.

  Numbers are idealised: a Python float is a real number and every arithmetic operation
  is exact.  Rounding errors of IEEE doubles, infinities and NaN are outside this model.
  Strings are sequences of ASCII characters; characters of code 128 and above are outside
  the model (the helper functions below leave them unchanged and treat them as neither
  space, digit nor word character).
\<close>

datatype pyval =
    PNone
  | PBool bool
  | PInt int
  | PFloat real
  | PStr string
  | PList "pyval list"
  | PDict "(string \<times> pyval) list"

type_synonym pydict = "(string \<times> pyval) list"

datatype exn = ValueError | TypeError | AttributeError | KeyError | NameError | OtherError string

text \<open>Sequencing of computations that may raise: the first exception wins.\<close>

definition ebind :: "exn + 'a \<Rightarrow> ('a \<Rightarrow> exn + 'b) \<Rightarrow> exn + 'b" where
  "ebind m f = (case m of Inl e \<Rightarrow> Inl e | Inr x \<Rightarrow> f x)"

text \<open>\<^verbatim>\<open>isinstance(v, dict)\<close> and \<^verbatim>\<open>isinstance(v, list) and all(isinstance(item, dict) for item in v)\<close>.\<close>

fun is_dict :: "pyval \<Rightarrow> bool" where
  "is_dict (PDict _) = True"
| "is_dict _ = False"

fun is_list_of_dicts :: "pyval \<Rightarrow> bool" where
  "is_list_of_dicts (PList xs) = list_all is_dict xs"
| "is_list_of_dicts _ = False"

text \<open>Truth value of an object, as \<^verbatim>\<open>if v\<close>, \<^verbatim>\<open>not v\<close> and \<^verbatim>\<open>a and b\<close> test it.\<close>

fun truthy :: "pyval \<Rightarrow> bool" where
  "truthy PNone = False"
| "truthy (PBool b) = b"
| "truthy (PInt i) = (i \<noteq> 0)"
| "truthy (PFloat r) = (r \<noteq> 0)"
| "truthy (PStr s) = (s \<noteq> [])"
| "truthy (PList xs) = (xs \<noteq> [])"
| "truthy (PDict kvs) = (kvs \<noteq> [])"

subsection \<open>Strings\<close>

text \<open>\<^verbatim>\<open>a in b\<close> on two strings: \<^verbatim>\<open>a\<close> occurs in \<^verbatim>\<open>b\<close> as a contiguous piece.\<close>

definition str_in :: "string \<Rightarrow> string \<Rightarrow> bool" where
  "str_in a b = sublist a b"

definition is_upper :: "char \<Rightarrow> bool" where
  "is_upper c = (c \<in> set ''ABCDEFGHIJKLMNOPQRSTUVWXYZ'')"

definition is_lower :: "char \<Rightarrow> bool" where
  "is_lower c = (c \<in> set ''abcdefghijklmnopqrstuvwxyz'')"

definition is_digit :: "char \<Rightarrow> bool" where
  "is_digit c = (c \<in> set ''0123456789'')"

text \<open>\<^verbatim>\<open>str.isspace\<close> on ASCII: tab, line feed, vertical tab, form feed, carriage return,
  the four separators 0x1C to 0x1F, and the space.\<close>

definition is_space :: "char \<Rightarrow> bool" where
  "is_space c = (c \<in> {CHR 0x09, CHR 0x0A, CHR 0x0B, CHR 0x0C, CHR 0x0D,
                       CHR 0x1C, CHR 0x1D, CHR 0x1E, CHR 0x1F, CHR 0x20})"

text \<open>The class \<^verbatim>\<open>\w\<close> of the \<^verbatim>\<open>re\<close> module on ASCII: letters, digits and the underscore.\<close>

definition is_word_char :: "char \<Rightarrow> bool" where
  "is_word_char c = (is_upper c \<or> is_lower c \<or> is_digit c \<or> c = CHR ''_'')"

definition lower_char :: "char \<Rightarrow> char" where
  "lower_char c = (if is_upper c then char_of (of_char c + (32::nat)) else c)"

definition lower :: "string \<Rightarrow> string" where
  "lower s = map lower_char s"

definition strip :: "string \<Rightarrow> string" where
  "strip s = rev (dropWhile is_space (rev (dropWhile is_space s)))"

text \<open>\<^verbatim>\<open>re.findall(r'\b\w+\b', s)\<close>: the maximal runs of word characters of \<^verbatim>\<open>s\<close>, left to right.
  \<^verbatim>\<open>findall_words_acc\<close> carries the run read so far.\<close>

fun findall_words_acc :: "string \<Rightarrow> string \<Rightarrow> string list" where
  "findall_words_acc cur [] = (if cur = [] then [] else [cur])"
| "findall_words_acc cur (c # cs) =
     (if is_word_char c then findall_words_acc (cur @ [c]) cs
      else (if cur = [] then [] else [cur]) @ findall_words_acc [] cs)"

definition findall_words :: "string \<Rightarrow> string list" where
  "findall_words s = findall_words_acc [] s"

text \<open>\<^verbatim>\<open>s.split('.')[0]\<close>: the part of \<^verbatim>\<open>s\<close> before its first dot (all of \<^verbatim>\<open>s\<close> when it has none).\<close>

definition split_dot_first :: "string \<Rightarrow> string" where
  "split_dot_first s = takeWhile (\<lambda>c. c \<noteq> CHR ''.'') s"

subsection \<open>\<^verbatim>\<open>str\<close> and \<^verbatim>\<open>repr\<close>\<close>

definition digit_char :: "nat \<Rightarrow> char" where
  "digit_char d = ''0123456789abcdef'' ! d"

fun str_nat :: "nat \<Rightarrow> string" where
  "str_nat n = (if n < 10 then [digit_char n] else str_nat (n div 10) @ [digit_char (n mod 10)])"

declare str_nat.simps [simp del]

definition str_int :: "int \<Rightarrow> string" where
  "str_int i = (if i < 0 then CHR ''-'' # str_nat (nat (- i)) else str_nat (nat i))"

text \<open>\<^verbatim>\<open>repr\<close> of a string.  Python quotes with \<^verbatim>\<open>'\<close>, unless the string has a \<^verbatim>\<open>'\<close> and no \<^verbatim>\<open>"\<close>;
  it escapes the backslash, the quote in use, tab, line feed and carriage return, and writes
  every other control character as \<^verbatim>\<open>\xhh\<close>.\<close>

definition repr_char :: "char \<Rightarrow> char \<Rightarrow> string" where
  "repr_char q c =
     (if c = q \<or> c = CHR 0x5C then [CHR 0x5C, c]
      else if c = CHR 0x09 then [CHR 0x5C, CHR ''t'']
      else if c = CHR 0x0A then [CHR 0x5C, CHR ''n'']
      else if c = CHR 0x0D then [CHR 0x5C, CHR ''r'']
      else if (of_char c :: nat) < 32 \<or> c = CHR 0x7F
        then [CHR 0x5C, CHR ''x'', digit_char (of_char c div 16), digit_char (of_char c mod 16)]
      else [c])"

definition repr_str :: "string \<Rightarrow> string" where
  "repr_str s =
     (let q = (if CHR 0x27 \<in> set s \<and> CHR 0x22 \<notin> set s then CHR 0x22 else CHR 0x27)
      in [q] @ concat (map (repr_char q) s) @ [q])"

text \<open>\<^verbatim>\<open>', '.join(xs)\<close>.\<close>

fun join_comma :: "string list \<Rightarrow> string" where
  "join_comma [] = []"
| "join_comma [x] = x"
| "join_comma (x # y # ys) = x @ '', '' @ join_comma (y # ys)"

text \<open>\<^verbatim>\<open>str\<close> of a list of strings, as \<^verbatim>\<open>str(qa_results.get('failed_rules', []))\<close> builds it.\<close>

definition str_of_rules :: "string list \<Rightarrow> string" where
  "str_of_rules rs = ''['' @ join_comma (map repr_str rs) @ '']''"

text \<open>
  \<^verbatim>\<open>repr\<close> and \<^verbatim>\<open>str\<close> of any value.  How Python prints a float or a Decimal is not part of
  the repository: it is the parameter \<open>fstr\<close>.
\<close>

fun repr :: "(real \<Rightarrow> string) \<Rightarrow> pyval \<Rightarrow> string" where
  "repr fstr PNone = ''None''"
| "repr fstr (PBool b) = (if b then ''True'' else ''False'')"
| "repr fstr (PInt i) = str_int i"
| "repr fstr (PFloat r) = fstr r"
| "repr fstr (PStr s) = repr_str s"
| "repr fstr (PList xs) = ''['' @ join_comma (map (repr fstr) xs) @ '']''"
| "repr fstr (PDict kvs) =
     ''{'' @ join_comma (map (\<lambda>(k, v). repr_str k @ '': '' @ repr fstr v) kvs) @ ''}''"

definition str :: "(real \<Rightarrow> string) \<Rightarrow> pyval \<Rightarrow> string" where
  "str fstr v = (case v of PStr s \<Rightarrow> s | _ \<Rightarrow> repr fstr v)"


subsection \<open>Dictionaries and numbers\<close>

text \<open>\<^verbatim>\<open>dict(items)\<close>: a key keeps the position of its first occurrence and the value of its last.\<close>

definition dict_of_items :: "(string \<times> 'v) list \<Rightarrow> (string \<times> 'v) list" where
  "dict_of_items items = foldl (\<lambda>d (k, v). AList.update k v d) [] items"

text \<open>\<^verbatim>\<open>round(x, 2)\<close>: the nearest multiple of 0.01, a tie going to the even one.\<close>

definition py_round2 :: "real \<Rightarrow> real" where
  "py_round2 x =
     (let y = x * 100; f = \<lfloor>y\<rfloor>; d = y - of_int f
      in (if d < 1 / 2 then of_int f
          else if 1 / 2 < d then of_int (f + 1)
          else if even f then of_int f else of_int (f + 1)) / 100)"

text \<open>\<^verbatim>\<open>np.mean\<close> of a list.\<close>

definition mean :: "real list \<Rightarrow> real" where
  "mean xs = sum_list xs / real (length xs)"

section \<open>Confidence scoring: \<^verbatim>\<open>utils/confidence_scorer.py\<close>\<close>

text \<open>
  An OCR token as \<^verbatim>\<open>utils/tools.py\<close> builds it: \<^verbatim>\<open>{"word", "bbox", "page_num"}\<close>, with an
  optional \<^verbatim>\<open>"conf"\<close> on the 0 to 100 scale.  The scorer reads \<^verbatim>\<open>word\<close> and \<^verbatim>\<open>conf\<close> with
  \<^verbatim>\<open>.get\<close> and a default, so both may be absent; \<^verbatim>\<open>bbox\<close> is \<^verbatim>\<open>[x0, y0, x1, y1]\<close>.
\<close>

record word_box =
  word :: "string option"
  conf :: "real option"
  bbox :: "real \<times> real \<times> real \<times> real"
  page_num :: int

text \<open>The validation result; \<^verbatim>\<open>failed_rules\<close> is read with \<^verbatim>\<open>.get('failed_rules', [])\<close>.\<close>

record qa_results =
  passed_rules :: "string list"
  failed_rules :: "string list option"
  qa_notes :: string

record source_info =
  page :: int
  src_bbox :: "real \<times> real \<times> real \<times> real"

record field_record =
  name :: string
  value_str :: string
  confidence :: real
  source :: "source_info option"

definition get_failed_rules :: "qa_results \<Rightarrow> string list" where
  "get_failed_rules qa = (case failed_rules qa of None \<Rightarrow> [] | Some rs \<Rightarrow> rs)"

definition get_word :: "word_box \<Rightarrow> string" where
  "get_word b = (case word b of None \<Rightarrow> [] | Some w \<Rightarrow> w)"

definition get_conf :: "word_box \<Rightarrow> real" where
  "get_conf b = (case conf b of None \<Rightarrow> 100 | Some c \<Rightarrow> c)"

subsection \<open>\<^verbatim>\<open>_calculate_llm_consistency\<close>\<close>

function flatten_dict :: "(real \<Rightarrow> string) \<Rightarrow> pydict \<Rightarrow> string \<Rightarrow> string \<Rightarrow> (string \<times> string) list" where
  "flatten_dict fstr d parent_key sep =
     dict_of_items (concat (map (\<lambda>kv.
        let new_key = (if parent_key \<noteq> [] then parent_key @ sep @ fst kv else fst kv)
        in (case snd kv of
              PDict d' \<Rightarrow> flatten_dict fstr d' new_key sep
            | PList xs \<Rightarrow>
                if list_all is_dict xs
                then concat (map (\<lambda>iv.
                       case snd iv of
                         PDict d' \<Rightarrow> flatten_dict fstr d' (new_key @ ''.'' @ str_nat (fst iv)) sep
                       | _ \<Rightarrow> [])
                     (enumerate 0 xs))
                else [(new_key, str fstr (snd kv))]
            | _ \<Rightarrow> [(new_key, str fstr (snd kv))])) d))"
  by pat_completeness auto

termination
proof -
  let ?m = "\<lambda>d :: pydict. size_list (size_prod (\<lambda>_. 0) size) d"
  have mem: "size (snd kv) < ?m d" if "kv \<in> set d" for kv :: "string \<times> pyval" and d
    using that by (induction d) (auto simp: less_Suc_eq_le)
  have elt: "size v \<le> size_list size xs" if "v \<in> set xs" for v :: pyval and xs
    using that by (induction xs) auto
  show ?thesis
  proof (relation "measure (\<lambda>(fstr, d, parent_key, sep). ?m d)")
    show "wf (measure (\<lambda>(fstr :: real \<Rightarrow> string, d, parent_key :: string, sep :: string). ?m d))"
      by simp
  next
    fix fstr :: "real \<Rightarrow> string" and d :: pydict and parent_key sep :: string
      and kv :: "string \<times> pyval" and new_key :: string and d' :: pydict
    assume "kv \<in> set d" and "snd kv = PDict d'"
    then show "((fstr, d', new_key, sep), (fstr, d, parent_key, sep))
        \<in> measure (\<lambda>(fstr, d, parent_key, sep). ?m d)"
      using mem [of kv d] by simp
  next
    fix fstr :: "real \<Rightarrow> string" and d :: pydict and parent_key sep :: string
      and kv :: "string \<times> pyval" and new_key :: string and xs :: "pyval list"
      and iv :: "nat \<times> pyval" and d' :: pydict
    assume kv: "kv \<in> set d" "snd kv = PList xs"
      and iv: "iv \<in> set (enumerate 0 xs)" "snd iv = PDict d'"
    have "snd iv \<in> set xs"
      using iv(1) nth_mem [of "fst iv" xs] by (auto simp: in_set_enumerate_eq)
    with iv(2) have "PDict d' \<in> set xs"
      by simp
    then have "size (PDict d') \<le> size_list size xs"
      by (rule elt)
    then show "((fstr, d', new_key @ ''.'' @ str_nat (fst iv), sep), (fstr, d, parent_key, sep))
        \<in> measure (\<lambda>(fstr, d, parent_key, sep). ?m d)"
      using mem [of kv d] kv by simp
  qed
qed


declare flatten_dict.simps [simp del]

text \<open>The number of runs whose flattened value at \<open>field_name\<close> equals the primary value:
  the inner loop of \<^verbatim>\<open>_calculate_llm_consistency\<close> (\<^verbatim>\<open>output.get(field_name) == primary_value\<close>).\<close>

definition match_count :: "(string \<times> string) list list \<Rightarrow> string \<Rightarrow> string \<Rightarrow> nat" where
  "match_count flattened_all_outputs field_name primary_value =
     length (filter (\<lambda>output. map_of output field_name = Some primary_value) flattened_all_outputs)"

definition calculate_llm_consistency ::
  "(real \<Rightarrow> string) \<Rightarrow> pydict \<Rightarrow> pydict list \<Rightarrow> (string \<times> real) list" where
  "calculate_llm_consistency fstr extracted_data llm_raw_outputs =
     (if llm_raw_outputs = [] then []
      else
        let num_runs = length llm_raw_outputs;
            flattened_main_data = flatten_dict fstr extracted_data [] ''.'';
            flattened_all_outputs = map (\<lambda>output. flatten_dict fstr output [] ''.'') llm_raw_outputs
        in dict_of_items (map (\<lambda>(field_name, primary_value).
             (field_name,
              if num_runs > 0
              then real (match_count flattened_all_outputs field_name primary_value) / real num_runs
              else 0)) flattened_main_data))"

subsection \<open>\<^verbatim>\<open>_get_ocr_confidence_for_value\<close>\<close>

definition ocr_word_matches :: "string \<Rightarrow> word_box \<Rightarrow> bool" where
  "ocr_word_matches normalized_value box_info =
     (let normalized_word_in_box = lower (strip (get_word box_info))
      in str_in normalized_value normalized_word_in_box
         \<or> str_in normalized_word_in_box normalized_value)"

definition matching_word_confs :: "string \<Rightarrow> word_box list \<Rightarrow> real list" where
  "matching_word_confs field_value word_boxes =
     map (\<lambda>box_info. get_conf box_info / 100)
       (filter (ocr_word_matches (lower (strip field_value))) word_boxes)"

definition get_ocr_confidence_for_value :: "string \<Rightarrow> word_box list \<Rightarrow> real" where
  "get_ocr_confidence_for_value field_value word_boxes =
     (if field_value = [] \<or> word_boxes = [] then 0
      else
        let confs = matching_word_confs field_value word_boxes
        in if confs \<noteq> [] then mean confs else 0)"

subsection \<open>\<^verbatim>\<open>_calculate_field_composite_confidence\<close>\<close>

text \<open>Lines 141 to 151: the validation score starts at 1.0 and two \<^verbatim>\<open>if\<close> statements, one
  after the other, may each set it to 0.5.\<close>

definition validation_score :: "string \<Rightarrow> qa_results \<Rightarrow> real" where
  "validation_score field_name qa =
     (let v0 = 1;
          v1 = (if str_in ''date'' field_name
                   \<and> str_in ''format_invalid'' (str_of_rules (get_failed_rules qa))
                then 0.5 else v0);
          v2 = (if str_in ''numeric_invalid'' (str_of_rules (get_failed_rules qa))
                   \<and> (str_in ''amount'' field_name \<or> str_in ''total'' field_name
                        \<or> str_in ''subtotal'' field_name \<or> str_in ''charge'' field_name)
                then 0.5 else v1)
      in v2)"

definition calculate_field_composite_confidence ::
  "string \<Rightarrow> string \<Rightarrow> real \<Rightarrow> qa_results \<Rightarrow> word_box list \<Rightarrow> real" where
  "calculate_field_composite_confidence field_name field_value llm_consistency_score qa word_boxes =
     (let vs = validation_score field_name qa;
          ocr_confidence_avg = get_ocr_confidence_for_value field_value word_boxes
      in 0.70 * llm_consistency_score + 0.20 * vs + 0.10 * ocr_confidence_avg)"

subsection \<open>\<^verbatim>\<open>_find_bbox_for_value\<close>\<close>

text \<open>The loop over the tokens, with its two accumulators: the boxes of the matching tokens
  and the page of the first one.\<close>

fun find_bbox_loop ::
  "string list \<Rightarrow> word_box list \<Rightarrow> (real \<times> real \<times> real \<times> real) list \<times> int option
     \<Rightarrow> (real \<times> real \<times> real \<times> real) list \<times> int option" where
  "find_bbox_loop tokens [] acc = acc"
| "find_bbox_loop tokens (box_info # rest) (matching_boxes, matching_page) =
     (if lower (get_word box_info) \<in> set tokens
      then find_bbox_loop tokens rest
             (matching_boxes @ [bbox box_info],
              (case matching_page of None \<Rightarrow> Some (page_num box_info) | Some p \<Rightarrow> Some p))
      else find_bbox_loop tokens rest (matching_boxes, matching_page))"

definition bx0 :: "real \<times> real \<times> real \<times> real \<Rightarrow> real" where "bx0 b = fst b"
definition by0 :: "real \<times> real \<times> real \<times> real \<Rightarrow> real" where "by0 b = fst (snd b)"
definition bx1 :: "real \<times> real \<times> real \<times> real \<Rightarrow> real" where "bx1 b = fst (snd (snd b))"
definition by1 :: "real \<times> real \<times> real \<times> real \<Rightarrow> real" where "by1 b = snd (snd (snd b))"

text \<open>The result as Python has it: \<^verbatim>\<open>None\<close>, or a dict with the page (\<^verbatim>\<open>None\<close> only if no token
  matched, which cannot be when boxes matched) and the box.\<close>

definition find_bbox_for_value :: "string \<Rightarrow> word_box list \<Rightarrow> source_info option" where
  "find_bbox_for_value field_value word_boxes =
     (if field_value = [] \<or> word_boxes = [] then None
      else
        let normalized_value_tokens = findall_words (lower field_value)
        in (case find_bbox_loop normalized_value_tokens word_boxes ([], None) of
              (b # bs, Some pg) \<Rightarrow>
                Some \<lparr>page = pg,
                      src_bbox = (fold min (map bx0 bs) (bx0 b), fold min (map by0 bs) (by0 b),
                                  fold max (map bx1 bs) (bx1 b), fold max (map by1 bs) (by1 b))\<rparr>
            | _ \<Rightarrow> None))"

subsection \<open>\<^verbatim>\<open>_calculate_overall_confidence\<close>\<close>

definition field_weights :: "(string \<times> real) list" where
  "field_weights =
     [(''invoice_number'', 1.5), (''total_amount'', 2.0), (''vendor_name'', 1.5),
      (''patient_name'', 1.5), (''total_charges'', 2.0), (''amount_due'', 1.5),
      (''prescription_date'', 1.5), (''doctor_name'', 1.5), (''medications'', 2.0)]"

definition field_weight :: "string \<Rightarrow> real" where
  "field_weight field_name =
     (case map_of field_weights (split_dot_first field_name) of None \<Rightarrow> 1.0 | Some w \<Rightarrow> w)"

text \<open>The loop of lines 246 to 254, on the pair \<open>(weighted_sum, total_weight)\<close>.\<close>

definition overall_loop :: "field_record list \<Rightarrow> real \<times> real \<Rightarrow> real \<times> real" where
  "overall_loop fields_with_confidence acc =
     fold (\<lambda>field (weighted_sum, total_weight).
             let weight = field_weight (name field)
             in (weighted_sum + confidence field * weight, total_weight + weight))
       fields_with_confidence acc"

definition calculate_overall_confidence :: "field_record list \<Rightarrow> qa_results \<Rightarrow> real" where
  "calculate_overall_confidence fields_with_confidence qa =
     (if fields_with_confidence = [] then 0
      else
        let (weighted_sum, total_weight) = overall_loop fields_with_confidence (0, 0);
            overall_score = (if total_weight > 0 then weighted_sum / total_weight else 0);
            num_failed_rules = length (get_failed_rules qa);
            penalized = (if num_failed_rules > 0
                         then overall_score * (1 - min (0.1 * real num_failed_rules) 0.5)
                         else overall_score)
        in py_round2 penalized)"

subsection \<open>\<^verbatim>\<open>calculate_confidence_scores\<close>\<close>

definition make_field ::
  "(string \<times> real) list \<Rightarrow> qa_results \<Rightarrow> word_box list \<Rightarrow> string \<Rightarrow> string \<Rightarrow> field_record" where
  "make_field llm_consistency_scores qa word_boxes field_name field_value =
     (let conf_raw = calculate_field_composite_confidence field_name field_value
                       (case map_of llm_consistency_scores field_name of None \<Rightarrow> 0 | Some s \<Rightarrow> s)
                       qa word_boxes;
          source_info = find_bbox_for_value field_value word_boxes
      in \<lparr>name = field_name, value_str = field_value,
          confidence = py_round2 conf_raw, source = source_info\<rparr>)"

definition fields_of_entry ::
  "(real \<Rightarrow> string) \<Rightarrow> (string \<times> real) list \<Rightarrow> qa_results \<Rightarrow> word_box list
     \<Rightarrow> string \<times> pyval \<Rightarrow> field_record list" where
  "fields_of_entry fstr scores qa word_boxes kv =
     (case kv of (key, v) \<Rightarrow>
        if is_list_of_dicts v
        then (case v of
                PList items \<Rightarrow>
                  concat (map (\<lambda>(i, item_dict).
                     (case item_dict of
                        PDict sub \<Rightarrow>
                          map (\<lambda>(sub_key, sub_value).
                                 make_field scores qa word_boxes
                                   (key @ ''.'' @ str_nat i @ ''.'' @ sub_key) (str fstr sub_value)) sub
                      | _ \<Rightarrow> [])) (enumerate 0 items))
              | _ \<Rightarrow> [])
        else [make_field scores qa word_boxes key (str fstr v)])"

definition calculate_confidence_scores ::
  "(real \<Rightarrow> string) \<Rightarrow> pydict \<Rightarrow> qa_results \<Rightarrow> pydict list \<Rightarrow> word_box list
     \<Rightarrow> field_record list \<times> real" where
  "calculate_confidence_scores fstr extracted_data qa llm_raw_outputs word_boxes =
     (let llm_consistency_scores = calculate_llm_consistency fstr extracted_data llm_raw_outputs;
          formatted_fields_with_confidence =
            concat (map (fields_of_entry fstr llm_consistency_scores qa word_boxes) extracted_data);
          overall_confidence = calculate_overall_confidence formatted_fields_with_confidence qa
      in (formatted_fields_with_confidence, overall_confidence))"


section \<open>Validation rules: \<^verbatim>\<open>agent/validation_rules.py\<close>\<close>

subsection \<open>\<^verbatim>\<open>datetime.strptime(s, "%Y-%m-%d")\<close>\<close>

text \<open>
  The format compiles to the pattern
  \<^verbatim>\<open>(\d\d\d\d)-(1[0-2]|0[1-9]|[1-9])-(3[01]|[12]\d|0[1-9]|[1-9]| [1-9])\<close>, which must use up
  the whole string; the three numbers must then be a date of the calendar, years 1 to 9999.
  Every failure is a \<^verbatim>\<open>ValueError\<close>.
\<close>

definition nat_of_digits :: "string \<Rightarrow> nat" where
  "nat_of_digits s = foldl (\<lambda>n c. 10 * n + (of_char c - 48)) 0 (filter is_digit s)"

definition month_strings :: "string list" where
  "month_strings =
     map str_nat [10..<13] @ map (\<lambda>n. CHR ''0'' # str_nat n) [1..<10] @ map str_nat [1..<10]"

definition day_strings :: "string list" where
  "day_strings =
     map str_nat [30..<32] @ map str_nat [10..<30] @ map (\<lambda>n. CHR ''0'' # str_nat n) [1..<10]
     @ map str_nat [1..<10] @ map (\<lambda>n. CHR '' '' # str_nat n) [1..<10]"

definition is_leap :: "nat \<Rightarrow> bool" where
  "is_leap y = (y mod 4 = 0 \<and> (y mod 100 \<noteq> 0 \<or> y mod 400 = 0))"

definition days_in_month :: "nat \<Rightarrow> nat \<Rightarrow> nat" where
  "days_in_month y m =
     (if m = 2 then (if is_leap y then 29 else 28)
      else if m \<in> {4, 6, 9, 11} then 30 else 31)"

definition strptime_ymd_ok :: "string \<Rightarrow> bool" where
  "strptime_ymd_ok s =
     (case s of
        y1 # y2 # y3 # y4 # sep1 # rest \<Rightarrow>
          list_all is_digit [y1, y2, y3, y4] \<and> sep1 = CHR ''-'' \<and>
          (let m_str = takeWhile (\<lambda>c. c \<noteq> CHR ''-'') rest
           in (case dropWhile (\<lambda>c. c \<noteq> CHR ''-'') rest of
                 sep2 # d_str \<Rightarrow>
                   m_str \<in> set month_strings \<and> d_str \<in> set day_strings \<and>
                   (let y = nat_of_digits [y1, y2, y3, y4];
                        m = nat_of_digits m_str;
                        d = nat_of_digits d_str
                    in 1 \<le> y \<and> d \<le> days_in_month y m)
               | [] \<Rightarrow> False))
      | _ \<Rightarrow> False)"

text \<open>\<^verbatim>\<open>_is_valid_date\<close> catches \<^verbatim>\<open>ValueError\<close> only: \<^verbatim>\<open>strptime\<close> raises \<^verbatim>\<open>TypeError\<close> for an
  argument that is not a string, and that exception leaves the function.\<close>

fun is_valid_date :: "pyval \<Rightarrow> exn + bool" where
  "is_valid_date (PStr s) = Inr (strptime_ymd_ok s)"
| "is_valid_date _ = Inl TypeError"

subsection \<open>\<^verbatim>\<open>float(v)\<close> and \<^verbatim>\<open>_is_valid_decimal\<close>\<close>

text \<open>How \<^verbatim>\<open>float\<close> reads a string is Python's, not the repository's: it is the parameter
  \<open>pfloat\<close>, \<open>None\<close> where \<^verbatim>\<open>float\<close> raises \<^verbatim>\<open>ValueError\<close>.\<close>

fun py_float :: "(string \<Rightarrow> real option) \<Rightarrow> pyval \<Rightarrow> exn + real" where
  "py_float pfloat PNone = Inl TypeError"
| "py_float pfloat (PBool b) = Inr (if b then 1 else 0)"
| "py_float pfloat (PInt i) = Inr (of_int i)"
| "py_float pfloat (PFloat r) = Inr r"
| "py_float pfloat (PStr s) = (case pfloat s of None \<Rightarrow> Inl ValueError | Some r \<Rightarrow> Inr r)"
| "py_float pfloat (PList xs) = Inl TypeError"
| "py_float pfloat (PDict kvs) = Inl TypeError"

text \<open>\<^verbatim>\<open>except (ValueError, TypeError)\<close>.\<close>

definition caught :: "exn \<Rightarrow> bool" where
  "caught e = (e = ValueError \<or> e = TypeError)"

definition is_valid_decimal :: "(string \<Rightarrow> real option) \<Rightarrow> pyval \<Rightarrow> exn + bool" where
  "is_valid_decimal pfloat v =
     (case py_float pfloat v of
        Inr _ \<Rightarrow> Inr True
      | Inl e \<Rightarrow> if caught e then Inr False else Inl e)"

text \<open>\<^verbatim>\<open>item.get(key)\<close> and \<^verbatim>\<open>item.get(key, default)\<close>: only a dict has the method.\<close>

fun py_get :: "pyval \<Rightarrow> string \<Rightarrow> pyval \<Rightarrow> exn + pyval" where
  "py_get (PDict kvs) k dflt = Inr (case map_of kvs k of None \<Rightarrow> dflt | Some v \<Rightarrow> v)"
| "py_get _ k dflt = Inl AttributeError"

text \<open>Iterating over a value: a list gives its elements, a dict its keys, a string its
  characters; anything else raises \<^verbatim>\<open>TypeError\<close>.\<close>

fun py_iter :: "pyval \<Rightarrow> exn + pyval list" where
  "py_iter (PList xs) = Inr xs"
| "py_iter (PDict kvs) = Inr (map (\<lambda>kv. PStr (fst kv)) kvs)"
| "py_iter (PStr s) = Inr (map (\<lambda>c. PStr [c]) s)"
| "py_iter _ = Inl TypeError"

subsection \<open>\<^verbatim>\<open>validate_invoice\<close>\<close>

text \<open>Each block of the function is a definition of its own, returning the rule ids it
  appends to \<^verbatim>\<open>passed_rules\<close> and to \<^verbatim>\<open>failed_rules\<close>, or the exception that leaves it.\<close>

type_synonym rules = "string list \<times> string list"

definition invoice_date_rule :: "pydict \<Rightarrow> exn + rules" where
  "invoice_date_rule d =
     (case map_of d ''invoice_date'' of
        None \<Rightarrow> Inr ([], [''invoice_date_format_invalid''])
      | Some v \<Rightarrow>
          ebind (is_valid_date v) (\<lambda>ok.
            Inr (if ok then ([''invoice_date_format_valid''], [])
                 else ([], [''invoice_date_format_invalid'']))))"

definition due_date_rule :: "pydict \<Rightarrow> exn + rules" where
  "due_date_rule d =
     (case map_of d ''due_date'' of
        None \<Rightarrow> Inr ([], [])
      | Some v \<Rightarrow>
          ebind (if truthy v then is_valid_date v else Inr False) (\<lambda>ok.
            Inr (if ok then ([''due_date_format_valid''], [])
                 else if v \<noteq> PNone then ([], [''due_date_format_invalid''])
                 else ([], []))))"

definition total_amount_rule :: "(string \<Rightarrow> real option) \<Rightarrow> pydict \<Rightarrow> exn + rules" where
  "total_amount_rule pfloat d =
     (case map_of d ''total_amount'' of
        None \<Rightarrow> Inr ([], [''total_amount_numeric_invalid''])
      | Some v \<Rightarrow>
          ebind (is_valid_decimal pfloat v) (\<lambda>ok.
            Inr (if ok then ([''total_amount_numeric_valid''], [])
                 else ([], [''total_amount_numeric_invalid'']))))"

text \<open>The blocks for \<^verbatim>\<open>subtotal\<close> and \<^verbatim>\<open>tax_amount\<close> differ in the key only.\<close>

definition optional_numeric_rule ::
  "(string \<Rightarrow> real option) \<Rightarrow> string \<Rightarrow> pydict \<Rightarrow> exn + rules" where
  "optional_numeric_rule pfloat key d =
     (case map_of d key of
        None \<Rightarrow> Inr ([], [])
      | Some v \<Rightarrow>
          ebind (if v = PNone then Inr True else is_valid_decimal pfloat v) (\<lambda>ok.
            Inr (if ok then ([key @ ''_numeric_valid''], [])
                 else if v \<noteq> PNone then ([], [key @ ''_numeric_invalid''])
                 else ([], []))))"

text \<open>The generator of line 86: \<^verbatim>\<open>float(item.get('line_total', 0))\<close> for the items whose
  \<^verbatim>\<open>line_total\<close> parses, summed from 0.\<close>

fun line_items_total :: "(string \<Rightarrow> real option) \<Rightarrow> pyval list \<Rightarrow> exn + real" where
  "line_items_total pfloat [] = Inr 0"
| "line_items_total pfloat (item # rest) =
     ebind (py_get item ''line_total'' PNone) (\<lambda>lt.
     ebind (is_valid_decimal pfloat lt) (\<lambda>ok.
     ebind (if ok then ebind (py_get item ''line_total'' (PInt 0)) (py_float pfloat) else Inr 0) (\<lambda>x.
     ebind (line_items_total pfloat rest) (\<lambda>s. Inr (x + s)))))"

definition sum_check_try :: "(string \<Rightarrow> real option) \<Rightarrow> pyval \<Rightarrow> pyval \<Rightarrow> exn + rules" where
  "sum_check_try pfloat total_amount line_items =
     ebind (py_float pfloat total_amount) (\<lambda>expected_total.
     ebind (py_iter line_items) (\<lambda>its.
     ebind (line_items_total pfloat its) (\<lambda>calculated_line_items_total.
       Inr (if \<bar>expected_total - calculated_line_items_total\<bar> < 0.01
            then ([''line_items_sum_matches_total''], [])
            else ([], [''line_items_sum_mismatch''])))))"

definition line_items_sum_rule :: "(string \<Rightarrow> real option) \<Rightarrow> pydict \<Rightarrow> exn + rules" where
  "line_items_sum_rule pfloat d =
     (case (map_of d ''total_amount'', map_of d ''line_items'') of
        (Some total_amount, Some line_items) \<Rightarrow>
          (case sum_check_try pfloat total_amount line_items of
             Inl e \<Rightarrow> if caught e then Inr ([], [''line_items_sum_check_failed_parsing''])
                      else Inl e
           | Inr r \<Rightarrow> Inr r)
      | _ \<Rightarrow> Inr ([], [''line_items_or_total_missing_for_sum_check'']))"

text \<open>Running the blocks in order; the first exception ends the function.\<close>

fun run_rules :: "(exn + rules) list \<Rightarrow> exn + rules" where
  "run_rules [] = Inr ([], [])"
| "run_rules (r # rs) =
     ebind r (\<lambda>(p, f). ebind (run_rules rs) (\<lambda>(ps, fs). Inr (p @ ps, f @ fs)))"

definition validate_invoice :: "(string \<Rightarrow> real option) \<Rightarrow> pydict \<Rightarrow> exn + rules" where
  "validate_invoice pfloat d =
     run_rules [invoice_date_rule d, due_date_rule d, total_amount_rule pfloat d,
                optional_numeric_rule pfloat ''subtotal'' d,
                optional_numeric_rule pfloat ''tax_amount'' d,
                line_items_sum_rule pfloat d]"


subsection \<open>\<^verbatim>\<open>validate_medical_bill\<close>\<close>

definition service_start_date_rule :: "pydict \<Rightarrow> exn + rules" where
  "service_start_date_rule d =
     (case map_of d ''date_of_service_start'' of
        None \<Rightarrow> Inr ([], [''service_start_date_format_invalid''])
      | Some v \<Rightarrow>
          ebind (is_valid_date v) (\<lambda>ok.
            Inr (if ok then ([''service_start_date_format_valid''], [])
                 else ([], [''service_start_date_format_invalid'']))))"

definition required_numeric_rule ::
  "(string \<Rightarrow> real option) \<Rightarrow> string \<Rightarrow> pydict \<Rightarrow> exn + rules" where
  "required_numeric_rule pfloat key d =
     (case map_of d key of
        None \<Rightarrow> Inr ([], [key @ ''_numeric_invalid''])
      | Some v \<Rightarrow>
          ebind (is_valid_decimal pfloat v) (\<lambda>ok.
            Inr (if ok then ([key @ ''_numeric_valid''], [])
                 else ([], [key @ ''_numeric_invalid'']))))"

text \<open>\<^verbatim>\<open>k in extracted_data and _is_valid_decimal(extracted_data[k])\<close>.\<close>

definition key_is_decimal :: "(string \<Rightarrow> real option) \<Rightarrow> pydict \<Rightarrow> string \<Rightarrow> exn + bool" where
  "key_is_decimal pfloat d k =
     (case map_of d k of None \<Rightarrow> Inr False | Some v \<Rightarrow> is_valid_decimal pfloat v)"

text \<open>\<^verbatim>\<open>extracted_data[k]\<close>.\<close>

definition getitem :: "pydict \<Rightarrow> string \<Rightarrow> exn + pyval" where
  "getitem d k = (case map_of d k of None \<Rightarrow> Inl KeyError | Some v \<Rightarrow> Inr v)"

definition balance_check_try :: "(string \<Rightarrow> real option) \<Rightarrow> pydict \<Rightarrow> exn + rules" where
  "balance_check_try pfloat d =
     ebind (ebind (getitem d ''total_charges'') (py_float pfloat)) (\<lambda>total_charges.
     ebind (ebind (getitem d ''amount_due'') (py_float pfloat)) (\<lambda>amount_due.
     ebind (ebind (getitem d ''insurance_paid'')
              (\<lambda>v. if v \<noteq> PNone then py_float pfloat v else Inr 0)) (\<lambda>insurance_paid.
       Inr (if \<bar>total_charges - (amount_due + insurance_paid)\<bar> < 0.01
            then ([''charges_balance_check_valid''], [])
            else ([], [''charges_balance_check_mismatch''])))))"

definition charges_balance_rule :: "(string \<Rightarrow> real option) \<Rightarrow> pydict \<Rightarrow> exn + rules" where
  "charges_balance_rule pfloat d =
     ebind (key_is_decimal pfloat d ''total_charges'') (\<lambda>a.
     ebind (if a then key_is_decimal pfloat d ''amount_due'' else Inr False) (\<lambda>b.
     ebind (if b then (case map_of d ''insurance_paid'' of
                         None \<Rightarrow> Inr False
                       | Some v \<Rightarrow> if v = PNone then Inr True else is_valid_decimal pfloat v)
            else Inr False) (\<lambda>c.
       if c
       then (case balance_check_try pfloat d of
               Inl e \<Rightarrow> if caught e then Inr ([], [''charges_balance_check_failed_parsing''])
                        else Inl e
             | Inr r \<Rightarrow> Inr r)
       else Inr ([], []))))"

definition validate_medical_bill :: "(string \<Rightarrow> real option) \<Rightarrow> pydict \<Rightarrow> exn + rules" where
  "validate_medical_bill pfloat d =
     run_rules [service_start_date_rule d,
                required_numeric_rule pfloat ''total_charges'' d,
                required_numeric_rule pfloat ''amount_due'' d,
                charges_balance_rule pfloat d]"

subsection \<open>\<^verbatim>\<open>validate_prescription\<close>\<close>

definition prescription_date_rule :: "pydict \<Rightarrow> exn + rules" where
  "prescription_date_rule d =
     (case map_of d ''prescription_date'' of
        None \<Rightarrow> Inr ([], [''prescription_date_format_invalid''])
      | Some v \<Rightarrow>
          ebind (is_valid_date v) (\<lambda>ok.
            Inr (if ok then ([''prescription_date_format_valid''], [])
                 else ([], [''prescription_date_format_invalid'']))))"

definition medication_listed_rule :: "pydict \<Rightarrow> exn + rules" where
  "medication_listed_rule d =
     (case map_of d ''medications'' of
        Some (PList meds) \<Rightarrow>
          Inr (if length meds > 0 then ([''at_least_one_medication_listed''], [])
               else ([], [''no_medication_listed'']))
      | _ \<Rightarrow> Inr ([], [''no_medication_listed'']))"

text \<open>One round of the loop of lines 164 to 178, for the medication at index \<open>i\<close>.\<close>

definition medication_key_rule :: "nat \<Rightarrow> pyval \<Rightarrow> string \<Rightarrow> exn + rules" where
  "medication_key_rule i med key =
     ebind (py_get med key PNone) (\<lambda>v.
       Inr (if \<not> truthy v then ([], [''medication_'' @ str_nat i @ ''_'' @ key @ ''_missing''])
            else ([''medication_'' @ str_nat i @ ''_'' @ key @ ''_present''], [])))"

definition medication_details_rule :: "pydict \<Rightarrow> exn + rules" where
  "medication_details_rule d =
     (case map_of d ''medications'' of
        Some (PList meds) \<Rightarrow>
          run_rules (concat (map (\<lambda>(i, med).
             [medication_key_rule i med ''drug_name'',
              medication_key_rule i med ''dosage'',
              medication_key_rule i med ''frequency'']) (enumerate 0 meds)))
      | _ \<Rightarrow> Inr ([], []))"

definition validate_prescription :: "pydict \<Rightarrow> exn + rules" where
  "validate_prescription d =
     run_rules [prescription_date_rule d, medication_listed_rule d, medication_details_rule d]"

subsection \<open>\<^verbatim>\<open>run_validation\<close>\<close>

definition validation_result :: "rules \<Rightarrow> qa_results" where
  "validation_result r =
     (case r of (passed, failed) \<Rightarrow>
        \<lparr>passed_rules = passed, failed_rules = Some failed,
         qa_notes = (if failed \<noteq> [] then str_nat (length failed) @ '' validation rule(s) failed.''
                     else ''All primary validation rules passed.'')\<rparr>)"

definition run_validation :: "(string \<Rightarrow> real option) \<Rightarrow> string \<Rightarrow> pydict \<Rightarrow> exn + qa_results" where
  "run_validation pfloat doc_type extracted_data =
     (if doc_type = ''invoice''
      then ebind (validate_invoice pfloat extracted_data) (\<lambda>r. Inr (validation_result r))
      else if doc_type = ''medical_bill''
      then ebind (validate_medical_bill pfloat extracted_data) (\<lambda>r. Inr (validation_result r))
      else if doc_type = ''prescription''
      then ebind (validate_prescription extracted_data) (\<lambda>r. Inr (validation_result r))
      else Inr (validation_result ([], [''no_validation_rules_for_type_'' @ doc_type])))"


section \<open>The agent: \<^verbatim>\<open>agent/core.py\<close>\<close>

text \<open>
  \<^verbatim>\<open>run_extraction\<close> calls collaborators that read files and talk to a language model.
  What they answer is not decided by the repository, so each answer is a parameter:
  what \<^verbatim>\<open>process_document\<close> returns or raises, the reply of the model to the classification
  and to the extraction request (or the exception of the call), what the schema's
  \<^verbatim>\<open>model_validate\<close> followed by \<^verbatim>\<open>model_dump\<close> gives, and how an exception and a number
  print.  Both modules build their API client with \<^verbatim>\<open>OpenAI(api_key=...)\<close> before their
  \<^verbatim>\<open>try\<close> block, and \<^verbatim>\<open>extract_document_data\<close> also serialises the schema there: whether
  these calls return or raise is a parameter too.
\<close>

datatype schema = InvoiceSchema | MedicalBillSchema | PrescriptionSchema

record document_data =
  doc_text :: string
  word_boxes :: "word_box list"

record collaborators =
  process_document :: "string \<Rightarrow> exn + document_data"
  router_client :: "exn + unit"
  llm_classify :: "string \<Rightarrow> exn + string"
  extractor_client :: "exn + unit"
  dump_schema :: "schema \<Rightarrow> exn + unit"
  llm_extract :: "string \<Rightarrow> schema \<Rightarrow> exn + pyval"
  model_validate :: "schema \<Rightarrow> pyval \<Rightarrow> exn + pydict"
  str_exn :: "exn \<Rightarrow> string"
  str_float :: "real \<Rightarrow> string"

record report =
  doc_type :: string
  report_fields :: "field_record list"
  overall_confidence :: real
  report_qa :: qa_results

text \<open>\<^verbatim>\<open>classify_document_type\<close> of \<^verbatim>\<open>agent/document_router.py\<close>.  Line 20 builds the client
  outside the \<^verbatim>\<open>try\<close>: an exception there leaves the function.  Inside the \<^verbatim>\<open>try\<close>, any
  exception of the call, and any reply outside the three types, gives \<^verbatim>\<open>'unknown'\<close>.\<close>

definition classify_document_type :: "collaborators \<Rightarrow> string \<Rightarrow> exn + string" where
  "classify_document_type c document_text =
     ebind (router_client c) (\<lambda>client.
       Inr (case llm_classify c (take 2000 document_text) of
              Inl e \<Rightarrow> ''unknown''
            | Inr content \<Rightarrow>
                let detected_type = lower (strip content)
                in if detected_type \<in> set [''invoice'', ''medical_bill'', ''prescription'']
                   then detected_type else ''unknown''))"

text \<open>\<^verbatim>\<open>extract_document_data\<close> of \<^verbatim>\<open>agent/extraction_chain.py\<close>.  Lines 24 and 27 (the client,
  the schema as JSON) come before the \<^verbatim>\<open>try\<close>: an exception there leaves the function.
  Inside the \<^verbatim>\<open>try\<close>, an exception gives \<^verbatim>\<open>{}\<close>.\<close>

definition extract_document_data :: "collaborators \<Rightarrow> string \<Rightarrow> schema \<Rightarrow> exn + pyval" where
  "extract_document_data c document_text document_schema =
     ebind (extractor_client c) (\<lambda>client.
     ebind (dump_schema c document_schema) (\<lambda>schema_json.
       Inr (case llm_extract c document_text document_schema of
              Inl e \<Rightarrow> PDict []
            | Inr extracted \<Rightarrow> extracted)))"

definition create_error_output :: "string \<Rightarrow> string \<Rightarrow> report" where
  "create_error_output message error_code =
     \<lparr>doc_type = ''error'', report_fields = [], overall_confidence = 0,
      report_qa = \<lparr>passed_rules = [], failed_rules = Some [error_code], qa_notes = message\<rparr>\<rparr>"

text \<open>The method \<^verbatim>\<open>_find_bbox_for_value\<close> of the agent: past its first test it calls \<^verbatim>\<open>re.sub\<close>,
  and \<^verbatim>\<open>core.py\<close> does not import \<^verbatim>\<open>re\<close>.\<close>

definition agent_find_bbox_for_value :: "string \<Rightarrow> word_box list \<Rightarrow> exn + source_info option" where
  "agent_find_bbox_for_value v wbs = (if v = [] \<or> wbs = [] then Inr None else Inl NameError)"

definition format_field :: "word_box list \<Rightarrow> string \<Rightarrow> string \<Rightarrow> exn + field_record" where
  "format_field wbs field_name v =
     ebind (agent_find_bbox_for_value v wbs) (\<lambda>bbox_for_value.
       Inr \<lparr>name = field_name, value_str = v, confidence = 0.5, source = bbox_for_value\<rparr>)"

fun collect :: "(exn + 'a) list \<Rightarrow> exn + 'a list" where
  "collect [] = Inr []"
| "collect (x # xs) = ebind x (\<lambda>y. ebind (collect xs) (\<lambda>ys. Inr (y # ys)))"

definition format_extracted_data ::
  "(real \<Rightarrow> string) \<Rightarrow> pydict \<Rightarrow> word_box list \<Rightarrow> exn + field_record list" where
  "format_extracted_data fstr extracted_data wbs =
     collect (concat (map (\<lambda>(key, v).
        if is_list_of_dicts v
        then (case v of
                PList items \<Rightarrow>
                  concat (map (\<lambda>(i, item_dict).
                     (case item_dict of
                        PDict sub \<Rightarrow>
                          map (\<lambda>(sub_key, sub_value).
                                 format_field wbs (key @ ''.'' @ str_nat i @ ''.'' @ sub_key)
                                   (str fstr sub_value)) sub
                      | _ \<Rightarrow> [])) (enumerate 0 items))
              | _ \<Rightarrow> [])
        else [format_field wbs key (str fstr v)]) extracted_data))"

definition schema_for :: "string \<Rightarrow> schema option" where
  "schema_for detected_doc_type =
     (if detected_doc_type = ''invoice'' then Some InvoiceSchema
      else if detected_doc_type = ''medical_bill'' then Some MedicalBillSchema
      else if detected_doc_type = ''prescription'' then Some PrescriptionSchema
      else None)"

text \<open>The message of the handler of lines 73 and 74, from the exception and from
  \<^verbatim>\<open>extracted_raw_data\<close> as it stands when the exception arrives.\<close>

definition extraction_error_output :: "collaborators \<Rightarrow> exn \<Rightarrow> pyval \<Rightarrow> report" where
  "extraction_error_output c e extracted_raw_data =
     create_error_output
       (''Error during data extraction or schema validation: '' @ str_exn c e
          @ ''. Raw extracted: '' @ str (str_float c) extracted_raw_data)
       ''extraction_error''"

text \<open>Steps 3 to 5 of \<^verbatim>\<open>run_extraction\<close>: the \<^verbatim>\<open>try\<close> block around the extraction and the
  schema validation, then the formatting of the fields, which no handler protects.\<close>

definition extract_and_format ::
  "collaborators \<Rightarrow> string \<Rightarrow> word_box list \<Rightarrow> string \<Rightarrow> schema \<Rightarrow> exn + report" where
  "extract_and_format c raw_text wbs detected_doc_type document_schema =
     (case extract_document_data c raw_text document_schema of
        Inl e \<Rightarrow> Inr (extraction_error_output c e (PDict []))
      | Inr extracted_raw_data \<Rightarrow>
          (case model_validate c document_schema extracted_raw_data of
             Inl e \<Rightarrow> Inr (extraction_error_output c e extracted_raw_data)
           | Inr dumped \<Rightarrow>
               ebind (format_extracted_data (str_float c) dumped wbs)
                 (\<lambda>fields_with_confidence.
                    Inr \<lparr>doc_type = detected_doc_type,
                         report_fields = fields_with_confidence,
                         overall_confidence = 0,
                         report_qa = \<lparr>passed_rules = [], failed_rules = Some [],
                                      qa_notes = ''Validation not yet fully implemented.''\<rparr>\<rparr>)))"

definition run_extraction :: "collaborators \<Rightarrow> string \<Rightarrow> exn + report" where
  "run_extraction c file_path =
     (case process_document c file_path of
        Inl e \<Rightarrow>
          Inr (create_error_output (''Error during OCR processing: '' @ str_exn c e) ''ocr_error'')
      | Inr document_data \<Rightarrow>
          let raw_text = doc_text document_data; wbs = word_boxes document_data
          in if raw_text = []
             then Inr (create_error_output ''OCR failed to extract text.'' ''ocr_failed'')
             else
               ebind (classify_document_type c raw_text) (\<lambda>detected_doc_type.
                 if detected_doc_type = ''unknown''
                 then Inr (create_error_output ''Could not classify document type.''
                             ''classification_failed'')
                 else (case schema_for detected_doc_type of
                         None \<Rightarrow>
                           Inr (create_error_output
                                  (''No schema defined for document type: '' @ detected_doc_type)
                                  ''schema_missing'')
                       | Some document_schema \<Rightarrow>
                           extract_and_format c raw_text wbs detected_doc_type document_schema)))"

text \<open>The shape of an error report: type \<^verbatim>\<open>"error"\<close>, no field, confidence 0.0, no passed
  rule and one failed rule.\<close>

definition is_error_report :: "report \<Rightarrow> bool" where
  "is_error_report r =
     (doc_type r = ''error'' \<and> report_fields r = [] \<and> overall_confidence r = 0 \<and>
      passed_rules (report_qa r) = [] \<and>
      (case failed_rules (report_qa r) of Some [code] \<Rightarrow> True | _ \<Rightarrow> False))"


section \<open>The specification's words\<close>

text \<open>The definitions of this section follow the wording of the specification; the
  properties below compare them with the definitions taken from the code.\<close>

definition date_format_failure_exists :: "qa_results \<Rightarrow> bool" where
  "date_format_failure_exists qa = str_in ''format_invalid'' (str_of_rules (get_failed_rules qa))"

definition numeric_format_failure_exists :: "qa_results \<Rightarrow> bool" where
  "numeric_format_failure_exists qa = str_in ''numeric_invalid'' (str_of_rules (get_failed_rules qa))"

definition is_monetary_name :: "string \<Rightarrow> bool" where
  "is_monetary_name field_name =
     (str_in ''amount'' field_name \<or> str_in ''total'' field_name
      \<or> str_in ''subtotal'' field_name \<or> str_in ''charge'' field_name)"

text \<open>Section 4.4: the rule is applied once; if any trigger fires the value is 0.5, else 1.0.\<close>

definition validation_score_spec :: "string \<Rightarrow> qa_results \<Rightarrow> real" where
  "validation_score_spec field_name qa =
     (if (str_in ''date'' field_name \<and> date_format_failure_exists qa)
         \<or> (is_monetary_name field_name \<and> numeric_format_failure_exists qa)
      then 0.5 else 1.0)"

text \<open>Section 4.4: the mean, over the tokens that match the value, of the token's confidence
  scaled to [0,1]; 0.0 if no token matches.\<close>

definition ocr_quality_score :: "string \<Rightarrow> word_box list \<Rightarrow> real" where
  "ocr_quality_score field_value wbs =
     (let matched = filter (ocr_word_matches (lower (strip field_value))) wbs
      in if field_value = [] \<or> matched = [] then 0
         else (\<Sum>b\<leftarrow>matched. get_conf b / 100) / real (length matched))"

text \<open>Inputs of the scenarios.\<close>

definition scenario_d_box :: word_box where
  "scenario_d_box = \<lparr>word = Some ''100.00'', conf = Some 90, bbox = (10, 20, 60, 32), page_num = 1\<rparr>"

definition no_failures_qa :: qa_results where
  "no_failures_qa = \<lparr>passed_rules = [], failed_rules = Some [], qa_notes = []\<rparr>"




text \<open>Section 4.5: the weight is looked up by the part of the name before the first dot, key
  fields weigh 1.5 to 2.0 and every other field 1.0; the weighted mean is
  \<^verbatim>\<open>sum(confidence*weight) / sum(weight)\<close>, and 0.0 if there is no field.\<close>

definition importance_weight :: "string \<Rightarrow> real" where
  "importance_weight top_level =
     (if top_level \<in> {''total_amount'', ''total_charges'', ''medications''} then 2.0
      else if top_level \<in> {''invoice_number'', ''vendor_name'', ''patient_name'', ''amount_due'',
                             ''prescription_date'', ''doctor_name''} then 1.5
      else 1.0)"

definition spec_weight :: "field_record \<Rightarrow> real" where
  "spec_weight f = importance_weight (takeWhile (\<lambda>c. c \<noteq> CHR ''.'') (name f))"

definition weighted_mean :: "field_record list \<Rightarrow> real" where
  "weighted_mean fs =
     (if fs = [] then 0
      else (\<Sum>f\<leftarrow>fs. confidence f * spec_weight f) / (\<Sum>f\<leftarrow>fs. spec_weight f))"

definition mean_example_fields :: "field_record list" where
  "mean_example_fields =
     [\<lparr>name = ''total_amount'', value_str = ''100.00'', confidence = 1, source = None\<rparr>,
      \<lparr>name = ''currency'', value_str = ''USD'', confidence = 0.5, source = None\<rparr>]"

text \<open>Every token confidence that is given lies in [0, 100].\<close>

definition confs_in_range :: "word_box list \<Rightarrow> bool" where
  "confs_in_range wbs =
     list_all (\<lambda>b. case conf b of None \<Rightarrow> True | Some c \<Rightarrow> 0 \<le> c \<and> c \<le> 100) wbs"

text \<open>The composite of a field record before rounding, from the record's own name and value.\<close>

definition raw_composite ::
  "(string \<times> real) list \<Rightarrow> qa_results \<Rightarrow> word_box list \<Rightarrow> field_record \<Rightarrow> real" where
  "raw_composite scores qa wbs f =
     calculate_field_composite_confidence (name f) (value_str f)
       (case map_of scores (name f) of None \<Rightarrow> 0 | Some s \<Rightarrow> s) qa wbs"

definition rounding_example_data :: pydict where
  "rounding_example_data = [(''vendor'', PStr ''Acme''), (''memo'', PStr ''paid'')]"

definition rounding_example_boxes :: "word_box list" where
  "rounding_example_boxes =
     [\<lparr>word = Some ''Acme'', conf = Some 90, bbox = (10, 10, 50, 20), page_num = 1\<rparr>,
      \<lparr>word = Some ''ACME'', conf = None, bbox = (10, 40, 52, 50), page_num = 1\<rparr>,
      \<lparr>word = Some ''paid'', conf = Some 10, bbox = (10, 70, 40, 80), page_num = 2\<rparr>]"

definition rounding_example_fields :: "field_record list" where
  "rounding_example_fields =
     [\<lparr>name = ''vendor'', value_str = ''Acme'', confidence = 0.3,
       source = Some \<lparr>page = 1, src_bbox = (10, 10, 52, 50)\<rparr>\<rparr>,
      \<lparr>name = ''memo'', value_str = ''paid'', confidence = 0.21,
       source = Some \<lparr>page = 2, src_bbox = (10, 70, 40, 80)\<rparr>\<rparr>]"

text \<open>The same records carrying the composites before rounding.\<close>

definition rounding_example_raw_fields :: "field_record list" where
  "rounding_example_raw_fields =
     map (\<lambda>f. f\<lparr>confidence :=
            raw_composite (calculate_llm_consistency (\<lambda>_. []) rounding_example_data [])
              no_failures_qa rounding_example_boxes f\<rparr>) rounding_example_fields"

text \<open>Section 4.3: the flattened tree, and for a leaf path of the primary run the fraction of
  the repeated runs whose flattened value at that path equals the primary value.\<close>

definition flatten :: "(real \<Rightarrow> string) \<Rightarrow> pydict \<Rightarrow> (string \<times> string) list" where
  "flatten fstr d = flatten_dict fstr d [] ''.''"

definition agreeing_runs :: "(real \<Rightarrow> string) \<Rightarrow> pydict list \<Rightarrow> string \<Rightarrow> string \<Rightarrow> nat" where
  "agreeing_runs fstr runs path primary_value =
     length (filter (\<lambda>run. map_of (flatten fstr run) path = Some primary_value) runs)"

definition consistency_spec :: "(real \<Rightarrow> string) \<Rightarrow> pydict \<Rightarrow> pydict list \<Rightarrow> string \<Rightarrow> real option" where
  "consistency_spec fstr primary runs path =
     (if runs = [] then None
      else (case map_of (flatten fstr primary) path of
              None \<Rightarrow> None
            | Some v \<Rightarrow> Some (real (agreeing_runs fstr runs path v) / real (length runs))))"

definition consistency_example_primary :: pydict where
  "consistency_example_primary =
     [(''invoice_number'', PStr ''INV-1''),
      (''line_items'', PList [PDict [(''line_total'', PInt 50)]]),
      (''currency'', PStr ''USD''),
      (''memo'', PStr ''net 30'')]"

definition consistency_example_runs :: "pydict list" where
  "consistency_example_runs =
     [[(''invoice_number'', PStr ''INV-1''),
       (''line_items'', PList [PDict [(''line_total'', PInt 50)]]),
       (''currency'', PStr ''USD'')],
      [(''invoice_number'', PStr ''INV-1''),
       (''line_items'', PList [PDict [(''line_total'', PInt 40)]])]]"





text \<open>Section 4.2: the sum of the line totals that parse, compared with the declared
  total.\<close>

definition line_total_value :: "(string \<Rightarrow> real option) \<Rightarrow> pyval \<Rightarrow> real" where
  "line_total_value pfloat item =
     (case item of
        PDict kvs \<Rightarrow>
          (case map_of kvs ''line_total'' of
             None \<Rightarrow> 0
           | Some v \<Rightarrow> (case py_float pfloat v of Inl _ \<Rightarrow> 0 | Inr x \<Rightarrow> x))
      | _ \<Rightarrow> 0)"

definition sum_of_parseable_line_totals :: "(string \<Rightarrow> real option) \<Rightarrow> pyval list \<Rightarrow> real" where
  "sum_of_parseable_line_totals pfloat items = (\<Sum>item\<leftarrow>items. line_total_value pfloat item)"

definition scenario_b_invoice :: pydict where
  "scenario_b_invoice =
     [(''total_amount'', PFloat 100),
      (''line_items'', PList [PDict [(''line_total'', PFloat 50)], PDict [(''line_total'', PFloat 50)]])]"

definition scenario_c_invoice :: pydict where
  "scenario_c_invoice =
     [(''total_amount'', PFloat 100), (''line_items'', PList [PDict [(''line_total'', PFloat 40)]])]"

text \<open>The rule identifiers of the sum check.\<close>

definition sum_check_ids :: "string list" where
  "sum_check_ids = [''line_items_sum_matches_total'', ''line_items_sum_mismatch'',
     ''line_items_sum_check_failed_parsing'', ''line_items_or_total_missing_for_sum_check'']"

text \<open>Collaborators for the failure scenarios of the agent.\<close>

definition ocr_raises :: collaborators where
  "ocr_raises =
     \<lparr>process_document = (\<lambda>_. Inl (OtherError ''Document not found'')),
      router_client = Inr (),
      llm_classify = (\<lambda>_. Inr ''invoice''),
      extractor_client = Inr (),
      dump_schema = (\<lambda>_. Inr ()),
      llm_extract = (\<lambda>_ _. Inr (PDict [])),
      model_validate = (\<lambda>_ _. Inr []),
      str_exn = (\<lambda>_. ''Document not found''),
      str_float = (\<lambda>_. [])\<rparr>"

definition one_page :: document_data where
  "one_page = \<lparr>doc_text = ''INVOICE 42'', word_boxes = []\<rparr>"

definition validation_raises :: collaborators where
  "validation_raises =
     \<lparr>process_document = (\<lambda>_. Inr one_page),
      router_client = Inr (),
      llm_classify = (\<lambda>_. Inr '' Invoice ''),
      extractor_client = Inr (),
      dump_schema = (\<lambda>_. Inr ()),
      llm_extract = (\<lambda>_ _. Inl (OtherError ''timeout'')),
      model_validate = (\<lambda>_ _. Inl (OtherError ''9 validation errors'')),
      str_exn = (\<lambda>_. ''9 validation errors''),
      str_float = (\<lambda>_. [])\<rparr>"

definition classifier_raises :: collaborators where
  "classifier_raises = validation_raises\<lparr>llm_classify := (\<lambda>_. Inl (OtherError ''timeout''))\<rparr>"

text \<open>The document is read, and the API key is not set: \<^verbatim>\<open>OpenAI(api_key=None)\<close> raises.\<close>

definition no_api_key :: collaborators where
  "no_api_key =
     validation_raises\<lparr>router_client := Inl (OtherError ''The api_key client option must be set''),
                        extractor_client := Inl (OtherError ''The api_key client option must be set'')\<rparr>"

(*DEFS*)

section \<open>Properties\<close>

subsection \<open>The composite field confidence\<close>

lemma validation_score_eq_spec:
  "validation_score field_name qa = validation_score_spec field_name qa"
  by (simp add: validation_score_def validation_score_spec_def date_format_failure_exists_def
      numeric_format_failure_exists_def is_monetary_name_def Let_def)

lemma ocr_eq_spec: "get_ocr_confidence_for_value v wbs = ocr_quality_score v wbs"
  by (auto simp: get_ocr_confidence_for_value_def ocr_quality_score_def matching_word_confs_def
      mean_def Let_def)

lemma no_failures_str:
  "\<not> str_in ''numeric_invalid'' (str_of_rules [])"
  "\<not> str_in ''format_invalid'' (str_of_rules [])"
  by code_simp+

lemma total_amount_name:
  "\<not> str_in ''date'' ''total_amount''"
  "str_in ''total'' ''total_amount''"
  by code_simp+

lemma scenario_d_filter:
  "filter (ocr_word_matches (lower (strip ''100.00''))) [scenario_d_box] = [scenario_d_box]"
  by code_simp

text \<open>
  Claim C1.  For every field, the composite confidence computed by
  \<^verbatim>\<open>_calculate_field_composite_confidence\<close> is the fixed blend
  0.70 * consistency + 0.20 * validation score + 0.10 * OCR quality.  For the field
  \<^verbatim>\<open>total_amount\<close> with consistency 1.0, no failed rule and exactly one matching token, of
  confidence 90 on the 0 to 100 scale, the composite is 0.99.  (Numbers are exact reals
  here; on IEEE doubles the same sum is 0.9899999999999999, which the caller rounds to 0.99.)
\<close>

theorem composite_is_weighted_blend:
  "(\<forall>field_name field_value c qa wbs.
      calculate_field_composite_confidence field_name field_value c qa wbs
        = 0.70 * c + 0.20 * validation_score_spec field_name qa
          + 0.10 * ocr_quality_score field_value wbs)
   \<and> (\<forall>field_value qa wbs b.
        field_value \<noteq> [] \<and> get_failed_rules qa = []
        \<and> filter (ocr_word_matches (lower (strip field_value))) wbs = [b] \<and> conf b = Some 90
        \<longrightarrow> calculate_field_composite_confidence ''total_amount'' field_value 1 qa wbs = 0.99)"
proof (intro conjI allI impI)
  fix field_name field_value c qa wbs
  show "calculate_field_composite_confidence field_name field_value c qa wbs
        = 0.70 * c + 0.20 * validation_score_spec field_name qa
          + 0.10 * ocr_quality_score field_value wbs"
    by (simp add: calculate_field_composite_confidence_def validation_score_eq_spec ocr_eq_spec)
next
  fix field_value qa wbs and b :: word_box
  assume h: "field_value \<noteq> [] \<and> get_failed_rules qa = []
        \<and> filter (ocr_word_matches (lower (strip field_value))) wbs = [b] \<and> conf b = Some 90"
  have v: "validation_score ''total_amount'' qa = 1"
    using h by (simp add: validation_score_def no_failures_str total_amount_name)
  have "wbs \<noteq> []" using h by auto
  then have o: "get_ocr_confidence_for_value field_value wbs = 0.9"
    using h by (simp add: get_ocr_confidence_for_value_def matching_word_confs_def mean_def
        get_conf_def)
  show "calculate_field_composite_confidence ''total_amount'' field_value 1 qa wbs = 0.99"
    by (simp add: calculate_field_composite_confidence_def v o)
qed

theorem composite_is_weighted_blend_witness:
  "calculate_field_composite_confidence ''total_amount'' ''100.00'' 1 no_failures_qa
     [scenario_d_box] = 0.99
   \<and> calculate_field_composite_confidence ''total_amount'' ''100.00'' 1 no_failures_qa
       [scenario_d_box]
       = 0.70 * 1 + 0.20 * validation_score_spec ''total_amount'' no_failures_qa
         + 0.10 * ocr_quality_score ''100.00'' [scenario_d_box]"
proof -
  have "get_failed_rules no_failures_qa = []"
    by (simp add: get_failed_rules_def no_failures_qa_def)
  moreover have "conf scenario_d_box = Some 90"
    by (simp add: scenario_d_box_def)
  ultimately show ?thesis
    using composite_is_weighted_blend scenario_d_filter by auto
qed

subsection \<open>The validation score\<close>














subsection \<open>The overall document confidence\<close>

lemma field_weight_spec: "field_weight (name f) = spec_weight f"
  by (simp add: field_weight_def spec_weight_def importance_weight_def field_weights_def
      split_dot_first_def)

lemma spec_weight_ge_1: "1 \<le> spec_weight f"
  by (simp add: spec_weight_def importance_weight_def)

lemma overall_loop_sums:
  "overall_loop fs (a, b) =
     (a + (\<Sum>f\<leftarrow>fs. confidence f * spec_weight f), b + (\<Sum>f\<leftarrow>fs. spec_weight f))"
proof (induction fs arbitrary: a b)
  case Nil
  then show ?case by (simp add: overall_loop_def)
next
  case (Cons f fs)
  have "overall_loop (f # fs) (a, b)
      = overall_loop fs (a + confidence f * spec_weight f, b + spec_weight f)"
    by (simp add: overall_loop_def field_weight_spec Let_def)
  then show ?case by (simp add: Cons.IH add.assoc)
qed

lemma total_weight_pos: "fs \<noteq> [] \<Longrightarrow> 0 < (\<Sum>f\<leftarrow>fs. spec_weight f)"
proof (induction fs)
  case Nil
  then show ?case by simp
next
  case (Cons f fs)
  have "0 \<le> (\<Sum>f\<leftarrow>fs. spec_weight f)"
    by (rule sum_list_nonneg) (use spec_weight_ge_1 in \<open>auto intro: order_trans [of 0 1]\<close>)
  then show ?case using spec_weight_ge_1 [of f] by simp
qed

lemma mean_example_values:
  "calculate_overall_confidence mean_example_fields no_failures_qa = 0.83"
  "weighted_mean mean_example_fields = 5 / 6"
  by code_simp+

text \<open>
  Claim C2, as stated: with no failed rule the overall confidence is exactly the weighted
  mean.  It is not: the code rounds the score to 2 decimal places before returning it.
  For \<^verbatim>\<open>total_amount\<close> at 1.0 (weight 2.0) and \<^verbatim>\<open>currency\<close> at 0.5 (weight 1.0) the weighted
  mean is 5/6 and the code returns 0.83.
\<close>

theorem overall_not_exact_mean_counterexample:
  "get_failed_rules no_failures_qa = []
   \<and> calculate_overall_confidence mean_example_fields no_failures_qa
       \<noteq> weighted_mean mean_example_fields"
proof -
  have "get_failed_rules no_failures_qa = []"
    by (simp add: get_failed_rules_def no_failures_qa_def)
  moreover have "calculate_overall_confidence mean_example_fields no_failures_qa
       \<noteq> weighted_mean mean_example_fields"
    by (simp add: mean_example_values)
  ultimately show ?thesis by simp
qed

text \<open>
  Claim C2, amended.  When the failed-rule list is empty, the overall confidence returned by
  \<^verbatim>\<open>_calculate_overall_confidence\<close> is the unpenalized weighted mean
  \<^verbatim>\<open>sum(confidence*weight) / sum(weight)\<close> rounded to 2 decimal places, the weight of a field
  being found by the part of its name before the first dot in the importance table (2.0 or
  1.5 for key fields, 1.0 otherwise); it is 0.0 when there is no field.
\<close>

theorem overall_is_rounded_weighted_mean:
  "get_failed_rules qa = [] \<Longrightarrow>
     calculate_overall_confidence fs qa = py_round2 (weighted_mean fs)
     \<and> calculate_overall_confidence [] qa = 0"
proof (cases "fs = []")
  case True
  then show ?thesis
    by (simp add: calculate_overall_confidence_def weighted_mean_def py_round2_def)
next
  case False
  assume "get_failed_rules qa = []"
  then show ?thesis using False total_weight_pos [OF False]
    by (simp add: calculate_overall_confidence_def weighted_mean_def overall_loop_sums)
qed

theorem overall_is_rounded_weighted_mean_witness:
  "get_failed_rules no_failures_qa = []
   \<and> calculate_overall_confidence mean_example_fields no_failures_qa = py_round2 (5 / 6)"
proof -
  have h: "get_failed_rules no_failures_qa = []"
    by (simp add: get_failed_rules_def no_failures_qa_def)
  show ?thesis
    using overall_is_rounded_weighted_mean [OF h, of mean_example_fields] h
    by (simp add: mean_example_values)
qed

subsection \<open>Ranges and rounding\<close>

lemma py_round2_bounds: "0 \<le> x \<Longrightarrow> x \<le> 1 \<Longrightarrow> 0 \<le> py_round2 x \<and> py_round2 x \<le> 1"
proof -
  assume a: "0 \<le> x" "x \<le> 1"
  let ?y = "x * 100" and ?f = "\<lfloor>x * 100\<rfloor>"
  have f0: "0 \<le> ?f" using a by simp
  have f1: "?f \<le> 100" using a by (simp add: floor_le_iff)
  have half: "1 / 2 \<le> ?y - of_int ?f \<Longrightarrow> ?f + 1 \<le> 100"
  proof -
    assume "1 / 2 \<le> ?y - of_int ?f"
    then have "of_int ?f < (100::real)" using a by linarith
    then show ?thesis by linarith
  qed
  have r0: "(0::real) \<le> of_int ?f" and r1: "(of_int ?f :: real) \<le> 100"
    using f0 f1 by linarith+
  show ?thesis
    using r0 r1 half
    by (simp add: py_round2_def Let_def)
qed

lemma py_round2_error: "\<bar>py_round2 x - x\<bar> \<le> 0.005"
proof -
  let ?y = "x * 100" and ?f = "\<lfloor>x * 100\<rfloor>"
  have lo: "of_int ?f \<le> ?y" and hi: "?y < of_int ?f + 1" by linarith+
  show ?thesis
    using lo hi
    apply (simp add: py_round2_def Let_def)
    apply (intro conjI impI)
    apply (simp_all add: abs_le_iff field_simps)
    done
qed


lemma mean_bounds:
  assumes "xs \<noteq> []" "\<forall>x\<in>set xs. 0 \<le> x \<and> x \<le> (1::real)"
  shows "0 \<le> mean xs \<and> mean xs \<le> 1"
proof -
  have "0 \<le> sum_list xs" using assms(2) by (simp add: sum_list_nonneg)
  moreover have "sum_list xs \<le> sum_list (map (\<lambda>_. 1) xs)"
    using assms(2) sum_list_mono [of xs "\<lambda>x. x" "\<lambda>_. 1"] by simp
  then have "sum_list xs \<le> real (length xs)" by (simp add: sum_list_triv)
  moreover have "0 < real (length xs)" using assms(1) by simp
  ultimately show ?thesis by (simp add: mean_def)
qed

lemma ocr_bounds:
  assumes "confs_in_range wbs"
  shows "0 \<le> get_ocr_confidence_for_value v wbs \<and> get_ocr_confidence_for_value v wbs \<le> 1"
proof -
  have "\<forall>x\<in>set (matching_word_confs v wbs). 0 \<le> x \<and> x \<le> 1"
    using assms
    by (auto simp: matching_word_confs_def confs_in_range_def list_all_iff get_conf_def
        split: option.splits)
  then show ?thesis
    using mean_bounds [of "matching_word_confs v wbs"]
    by (simp add: get_ocr_confidence_for_value_def Let_def)
qed

lemma validation_score_bounds: "0.5 \<le> validation_score n qa \<and> validation_score n qa \<le> 1"
  by (simp add: validation_score_def Let_def)

lemma composite_bounds:
  assumes "confs_in_range wbs" "0 \<le> c" "c \<le> 1"
  shows "0 \<le> calculate_field_composite_confidence n v c qa wbs
       \<and> calculate_field_composite_confidence n v c qa wbs \<le> 1"
  using ocr_bounds [OF assms(1), of v] validation_score_bounds [of n qa] assms(2,3)
  by (simp add: calculate_field_composite_confidence_def Let_def)

lemma map_of_dict_of_items_aux:
  "map_of (foldl (\<lambda>d (k, v). AList.update k v d) d0 xs) = map_of d0 ++ map_of (rev xs)"
proof (induction xs arbitrary: d0)
  case Nil
  then show ?case by simp
next
  case (Cons x xs)
  obtain k v where x: "x = (k, v)" by (cases x)
  show ?case
    by (auto simp: Cons.IH x update_conv' fun_eq_iff map_add_def split: option.splits)
qed

lemma map_of_dict_of_items: "map_of (dict_of_items xs) = map_of (rev xs)"
  by (simp add: dict_of_items_def map_of_dict_of_items_aux)

lemma dict_of_items_member: "map_of (dict_of_items xs) k = Some v \<Longrightarrow> (k, v) \<in> set xs"
  by (auto simp: map_of_dict_of_items dest: map_of_SomeD)

lemma match_count_le: "match_count outs k v \<le> length outs"
  by (simp add: match_count_def)

lemma consistency_bounds:
  assumes "map_of (calculate_llm_consistency fstr d runs) k = Some s"
  shows "0 \<le> s \<and> s \<le> 1"
proof (cases "runs = []")
  case True
  then show ?thesis using assms by (simp add: calculate_llm_consistency_def)
next
  case False
  let ?outs = "map (\<lambda>output. flatten_dict fstr output [] ''.'') runs"
  from assms False obtain p where
    s: "s = real (match_count ?outs k p) / real (length runs)"
    by (auto simp: calculate_llm_consistency_def Let_def dest!: dict_of_items_member)
  have "match_count ?outs k p \<le> length runs"
    using match_count_le [of ?outs k p] by simp
  then show ?thesis using False by (simp add: s)
qed

lemma consistency_get_bounds:
  "0 \<le> (case map_of (calculate_llm_consistency fstr d runs) k of None \<Rightarrow> 0 | Some s \<Rightarrow> s)
   \<and> (case map_of (calculate_llm_consistency fstr d runs) k of None \<Rightarrow> 0 | Some s \<Rightarrow> s) \<le> 1"
  using consistency_bounds [of fstr d runs k] by (auto split: option.splits)

lemma make_field_bounds:
  assumes "confs_in_range wbs"
  shows "0 \<le> confidence (make_field (calculate_llm_consistency fstr d runs) qa wbs n v)
       \<and> confidence (make_field (calculate_llm_consistency fstr d runs) qa wbs n v) \<le> 1"
proof -
  let ?c = "case map_of (calculate_llm_consistency fstr d runs) n of None \<Rightarrow> 0 | Some s \<Rightarrow> s"
  have "0 \<le> calculate_field_composite_confidence n v ?c qa wbs
       \<and> calculate_field_composite_confidence n v ?c qa wbs \<le> 1"
    using consistency_get_bounds [of fstr d runs n] by (intro composite_bounds assms) auto
  then show ?thesis
    using py_round2_bounds by (simp add: make_field_def Let_def)
qed

text \<open>Every field record of the result is built by make_field.\<close>

lemma fields_of_entry_made:
  "f \<in> set (fields_of_entry fstr scores qa wbs kv) \<Longrightarrow> \<exists>n v. f = make_field scores qa wbs n v"
proof -
  assume a: "f \<in> set (fields_of_entry fstr scores qa wbs kv)"
  obtain key v where kv: "kv = (key, v)" by (cases kv)
  show ?thesis
  proof (cases "is_list_of_dicts v")
    case False
    then show ?thesis using a kv by (auto simp: fields_of_entry_def)
  next
    case True
    then obtain items where v: "v = PList items" by (cases v) auto
    then show ?thesis using a kv True
      by (auto simp: fields_of_entry_def split: pyval.splits)
  qed
qed

lemma fields_made:
  assumes "calculate_confidence_scores fstr d qa runs wbs = (fs, overall)" "f \<in> set fs"
  shows "\<exists>n v. f = make_field (calculate_llm_consistency fstr d runs) qa wbs n v"
  using assms by (auto simp: calculate_confidence_scores_def Let_def dest: fields_of_entry_made)




lemma weighted_sum_bounds:
  assumes "\<forall>f\<in>set fs. 0 \<le> confidence f \<and> confidence f \<le> 1"
  shows "0 \<le> (\<Sum>f\<leftarrow>fs. confidence f * spec_weight f)"
    and "(\<Sum>f\<leftarrow>fs. confidence f * spec_weight f) \<le> (\<Sum>f\<leftarrow>fs. spec_weight f)"
proof -
  have w: "0 \<le> spec_weight f" for f
    using spec_weight_ge_1 [of f] by simp
  show "0 \<le> (\<Sum>f\<leftarrow>fs. confidence f * spec_weight f)"
    using assms w by (intro sum_list_nonneg) auto
  show "(\<Sum>f\<leftarrow>fs. confidence f * spec_weight f) \<le> (\<Sum>f\<leftarrow>fs. spec_weight f)"
    using assms w by (intro sum_list_mono) (auto intro: mult_left_le_one_le)
qed

lemma penalty_bounds:
  "0 \<le> 1 - min (0.1 * real n) (0.5::real) \<and> 1 - min (0.1 * real n) (0.5::real) \<le> 1"
  by (simp add: min_def)

lemma overall_bounds:
  assumes "\<forall>f\<in>set fs. 0 \<le> confidence f \<and> confidence f \<le> 1"
  shows "0 \<le> calculate_overall_confidence fs qa \<and> calculate_overall_confidence fs qa \<le> 1"
proof (cases "fs = []")
  case True
  then show ?thesis by (simp add: calculate_overall_confidence_def)
next
  case False
  let ?s = "\<Sum>f\<leftarrow>fs. confidence f * spec_weight f" and ?w = "\<Sum>f\<leftarrow>fs. spec_weight f"
  let ?n = "length (get_failed_rules qa)"
  have w: "0 < ?w" by (rule total_weight_pos [OF False])
  have m: "0 \<le> ?s / ?w" "?s / ?w \<le> 1"
    using weighted_sum_bounds [OF assms] w by simp_all
  have p: "0 \<le> ?s / ?w * (1 - min (0.1 * real ?n) 0.5)"
    "?s / ?w * (1 - min (0.1 * real ?n) 0.5) \<le> 1"
  proof -
    have b: "0 \<le> 1 - min (0.1 * real ?n) (0.5::real)" "1 - min (0.1 * real ?n) (0.5::real) \<le> 1"
      using penalty_bounds [of ?n] by blast+
    show "0 \<le> ?s / ?w * (1 - min (0.1 * real ?n) 0.5)"
      using m(1) b(1) by (rule mult_nonneg_nonneg)
    show "?s / ?w * (1 - min (0.1 * real ?n) 0.5) \<le> 1"
      using m(2) b(1) b(2) by (rule mult_le_one)
  qed
  have eq: "calculate_overall_confidence fs qa
      = py_round2 (if 0 < ?n then ?s / ?w * (1 - min (0.1 * real ?n) 0.5) else ?s / ?w)"
    using False w by (simp add: calculate_overall_confidence_def overall_loop_sums Let_def)
  show ?thesis
    unfolding eq using m p py_round2_bounds by (cases "0 < ?n") simp_all
qed

lemma rounding_example_result:
  "calculate_confidence_scores (\<lambda>_. []) rounding_example_data no_failures_qa []
     rounding_example_boxes = (rounding_example_fields, 0.26)"
  by code_simp

lemma rounding_example_range: "confs_in_range rounding_example_boxes"
  by code_simp

text \<open>
  Claim C3.  For every extracted-data dict, qa result, list of repeated runs and word-box
  list whose token confidences lie in [0, 100], every per-field confidence returned by
  \<^verbatim>\<open>calculate_confidence_scores\<close> lies in [0, 1], and so does the overall confidence.
\<close>

theorem confidences_in_unit_interval:
  assumes "confs_in_range wbs"
    and "calculate_confidence_scores fstr d qa runs wbs = (fs, overall)"
  shows "(\<forall>f\<in>set fs. 0 \<le> confidence f \<and> confidence f \<le> 1) \<and> 0 \<le> overall \<and> overall \<le> 1"
proof -
  have fs: "\<forall>f\<in>set fs. 0 \<le> confidence f \<and> confidence f \<le> 1"
  proof
    fix f assume "f \<in> set fs"
    then obtain n v where "f = make_field (calculate_llm_consistency fstr d runs) qa wbs n v"
      using fields_made [OF assms(2)] by blast
    then show "0 \<le> confidence f \<and> confidence f \<le> 1"
      using make_field_bounds [OF assms(1)] by simp
  qed
  have "overall = calculate_overall_confidence fs qa"
    using assms(2) by (auto simp: calculate_confidence_scores_def Let_def)
  then show ?thesis using fs overall_bounds [OF fs, of qa] by simp
qed

theorem confidences_in_unit_interval_witness:
  "confs_in_range rounding_example_boxes
   \<and> list_all (\<lambda>f. 0 \<le> confidence f \<and> confidence f \<le> 1) rounding_example_fields
   \<and> (0::real) \<le> 0.26 \<and> (0.26::real) \<le> 1"
  using confidences_in_unit_interval [OF rounding_example_range rounding_example_result]
    rounding_example_range
  by (simp add: list_all_iff)

lemma rounding_example_raw:
  "map (raw_composite (calculate_llm_consistency (\<lambda>_. []) rounding_example_data []) no_failures_qa
     rounding_example_boxes) rounding_example_fields = [0.295, 0.21]"
  by code_simp

lemma rounding_example_overall:
  "calculate_overall_confidence rounding_example_fields no_failures_qa = 0.26"
  "calculate_overall_confidence rounding_example_raw_fields no_failures_qa = 0.25"
  by code_simp+

text \<open>
  Claim C10.  Every field record returned by \<^verbatim>\<open>calculate_confidence_scores\<close> carries the raw
  composite rounded to 2 decimal places, so the two differ by at most 0.005, and the overall
  confidence is \<^verbatim>\<open>_calculate_overall_confidence\<close> of these records, that is of the rounded
  values.  The difference shows: two fields with composites 0.295 and 0.21 are reported as
  0.30 and 0.21 and give the overall confidence 0.26, where the composites themselves would
  give 0.25.
\<close>

theorem reported_confidence_is_rounded_composite:
  assumes "calculate_confidence_scores fstr d qa runs wbs = (fs, overall)"
  shows "overall = calculate_overall_confidence fs qa
       \<and> (\<forall>f\<in>set fs.
            confidence f = py_round2 (raw_composite (calculate_llm_consistency fstr d runs) qa wbs f)
            \<and> \<bar>confidence f - raw_composite (calculate_llm_consistency fstr d runs) qa wbs f\<bar> \<le> 0.005)
       \<and> calculate_overall_confidence rounding_example_fields no_failures_qa
           \<noteq> calculate_overall_confidence rounding_example_raw_fields no_failures_qa"
proof -
  have ex: "calculate_overall_confidence rounding_example_fields no_failures_qa
           \<noteq> calculate_overall_confidence rounding_example_raw_fields no_failures_qa"
    by (simp add: rounding_example_overall)
  let ?sc = "calculate_llm_consistency fstr d runs"
  have "overall = calculate_overall_confidence fs qa"
    using assms by (auto simp: calculate_confidence_scores_def Let_def)
  moreover have "confidence f = py_round2 (raw_composite ?sc qa wbs f)
            \<and> \<bar>confidence f - raw_composite ?sc qa wbs f\<bar> \<le> 0.005" if fin: "f \<in> set fs" for f
  proof -
    obtain n v where f: "f = make_field ?sc qa wbs n v"
      using fields_made [OF assms fin] by blast
    have "confidence f = py_round2 (raw_composite ?sc qa wbs f)"
      by (simp add: f make_field_def raw_composite_def Let_def)
    then show ?thesis using py_round2_error [of "raw_composite ?sc qa wbs f"] by simp
  qed
  ultimately show ?thesis using ex by blast
qed

theorem reported_confidence_is_rounded_composite_witness:
  "(0.26::real) = calculate_overall_confidence rounding_example_fields no_failures_qa
   \<and> map confidence rounding_example_fields = map py_round2 [0.295, 0.21]
   \<and> list_all (\<lambda>f.
         \<bar>confidence f - raw_composite (calculate_llm_consistency (\<lambda>_. []) rounding_example_data [])
                            no_failures_qa rounding_example_boxes f\<bar> \<le> 0.005)
       rounding_example_fields"
proof -
  note w = reported_confidence_is_rounded_composite [OF rounding_example_result]
  have "map confidence rounding_example_fields = map py_round2 [0.295, 0.21]"
    by code_simp
  then show ?thesis using w unfolding list_all_iff by blast
qed

subsection \<open>Self-consistency\<close>

lemma distinct_dict_of_items_aux:
  "distinct (map fst d0) \<Longrightarrow> distinct (map fst (foldl (\<lambda>d (k, v). AList.update k v d) d0 xs))"
  by (induction xs arbitrary: d0) (auto simp: distinct_update)

lemma distinct_dict_of_items: "distinct (map fst (dict_of_items xs))"
  by (simp add: dict_of_items_def distinct_dict_of_items_aux)

lemma distinct_flatten: "distinct (map fst (flatten_dict fstr d parent sep))"
  by (subst flatten_dict.simps) (rule distinct_dict_of_items)

lemma map_of_rev_distinct: "distinct (map fst xs) \<Longrightarrow> map_of (rev xs) = map_of xs"
  by (simp add: map_of_inject_set distinct_rev rev_map [symmetric])

lemma map_of_mapped_values:
  "map_of (map (\<lambda>(k, v). (k, h k v)) xs) p = map_option (h p) (map_of xs p)"
  by (induction xs) auto

lemma consistency_eq_spec:
  "map_of (calculate_llm_consistency fstr d runs) p = consistency_spec fstr d runs p"
proof (cases "runs = []")
  case True
  then show ?thesis by (simp add: calculate_llm_consistency_def consistency_spec_def)
next
  case False
  let ?fm = "flatten_dict fstr d [] ''.''"
  let ?outs = "map (\<lambda>output. flatten_dict fstr output [] ''.'') runs"
  let ?h = "\<lambda>k v. real (match_count ?outs k v) / real (length runs)"
  have mc: "match_count ?outs k v = agreeing_runs fstr runs k v" for k v
    by (simp add: match_count_def agreeing_runs_def flatten_def filter_map o_def)
  have d: "distinct (map fst (map (\<lambda>(k, v). (k, ?h k v)) ?fm))"
    using distinct_flatten [of fstr d "[]" "''.''"] by (simp add: o_def split_def)
  have "calculate_llm_consistency fstr d runs = dict_of_items (map (\<lambda>(k, v). (k, ?h k v)) ?fm)"
    using False by (simp add: calculate_llm_consistency_def Let_def)
  then have "map_of (calculate_llm_consistency fstr d runs) p
      = map_of (map (\<lambda>(k, v). (k, ?h k v)) ?fm) p"
    using map_of_rev_distinct [OF d] by (simp add: map_of_dict_of_items)
  also have "\<dots> = map_option (?h p) (map_of ?fm p)"
    by (rule map_of_mapped_values)
  finally show ?thesis
    using False by (simp add: consistency_spec_def flatten_def mc split: option.splits)
qed

lemma filter_all: "(\<forall>x\<in>set xs. P x) \<Longrightarrow> length (filter P xs) = length xs"
  by (induction xs) auto

lemma filter_none: "(\<forall>x\<in>set xs. \<not> P x) \<Longrightarrow> length (filter P xs) = 0"
  by (induction xs) auto

text \<open>
  Claim C4.  \<^verbatim>\<open>_calculate_llm_consistency\<close> gives each flattened leaf path of the primary tree
  the fraction of the N repeated runs whose flattened value at that path is the same string
  as the primary value.  With no repeated run it returns the empty map, and
  \<^verbatim>\<open>calculate_confidence_scores\<close> then computes every field with consistency 0.0.  A path
  with the same value in all runs scores 1.0; a path absent from every run scores 0.0.
\<close>

theorem consistency_is_match_fraction:
  "calculate_llm_consistency fstr primary [] = []
   \<and> (\<forall>path. map_of (calculate_llm_consistency fstr primary runs) path
                = consistency_spec fstr primary runs path)
   \<and> (\<forall>path v. runs \<noteq> [] \<and> map_of (flatten fstr primary) path = Some v
                \<and> (\<forall>run\<in>set runs. map_of (flatten fstr run) path = Some v)
          \<longrightarrow> map_of (calculate_llm_consistency fstr primary runs) path = Some 1)
   \<and> (\<forall>path v. runs \<noteq> [] \<and> map_of (flatten fstr primary) path = Some v
                \<and> (\<forall>run\<in>set runs. map_of (flatten fstr run) path = None)
          \<longrightarrow> map_of (calculate_llm_consistency fstr primary runs) path = Some 0)
   \<and> (\<forall>fs overall. calculate_confidence_scores fstr primary qa [] wbs = (fs, overall)
          \<longrightarrow> (\<forall>f\<in>set fs. confidence f
                  = py_round2 (calculate_field_composite_confidence (name f) (value_str f) 0 qa wbs)))"
proof (intro conjI allI impI)
  show "calculate_llm_consistency fstr primary [] = []"
    by (simp add: calculate_llm_consistency_def)
next
  fix path
  show "map_of (calculate_llm_consistency fstr primary runs) path
          = consistency_spec fstr primary runs path"
    by (rule consistency_eq_spec)
next
  fix path v
  assume a: "runs \<noteq> [] \<and> map_of (flatten fstr primary) path = Some v
                \<and> (\<forall>run\<in>set runs. map_of (flatten fstr run) path = Some v)"
  then have "agreeing_runs fstr runs path v = length runs"
    by (simp add: agreeing_runs_def filter_all)
  then show "map_of (calculate_llm_consistency fstr primary runs) path = Some 1"
    using a by (simp add: consistency_eq_spec consistency_spec_def)
next
  fix path v
  assume a: "runs \<noteq> [] \<and> map_of (flatten fstr primary) path = Some v
                \<and> (\<forall>run\<in>set runs. map_of (flatten fstr run) path = None)"
  then have "agreeing_runs fstr runs path v = 0"
    by (simp add: agreeing_runs_def)
  then show "map_of (calculate_llm_consistency fstr primary runs) path = Some 0"
    using a by (simp add: consistency_eq_spec consistency_spec_def)
next
  fix fs overall
  assume r: "calculate_confidence_scores fstr primary qa [] wbs = (fs, overall)"
  show "\<forall>f\<in>set fs. confidence f
      = py_round2 (calculate_field_composite_confidence (name f) (value_str f) 0 qa wbs)"
  proof
    fix f
    assume f: "f \<in> set fs"
    obtain n v where "f = make_field (calculate_llm_consistency fstr primary []) qa wbs n v"
      using fields_made [OF r f] by blast
    then show "confidence f
        = py_round2 (calculate_field_composite_confidence (name f) (value_str f) 0 qa wbs)"
      by (simp add: make_field_def calculate_llm_consistency_def Let_def)
  qed
qed

lemma consistency_example_values:
  "flatten (\<lambda>_. []) consistency_example_primary
     = [(''invoice_number'', ''INV-1''), (''line_items.0.line_total'', ''50''),
        (''currency'', ''USD''), (''memo'', ''net 30'')]"
  "calculate_llm_consistency (\<lambda>_. []) consistency_example_primary consistency_example_runs
     = [(''invoice_number'', 1), (''line_items.0.line_total'', 1 / 2),
        (''currency'', 1 / 2), (''memo'', 0)]"
  "consistency_example_runs \<noteq> []"
  "list_all (\<lambda>run. map_of (flatten (\<lambda>_. []) run) ''invoice_number'' = Some ''INV-1'')
     consistency_example_runs"
  "list_all (\<lambda>run. map_of (flatten (\<lambda>_. []) run) ''memo'' = None) consistency_example_runs"
  by code_simp+

theorem consistency_is_match_fraction_witness:
  "consistency_example_runs \<noteq> []
   \<and> map_of (flatten (\<lambda>_. []) consistency_example_primary) ''invoice_number'' = Some ''INV-1''
   \<and> list_all (\<lambda>run. map_of (flatten (\<lambda>_. []) run) ''invoice_number'' = Some ''INV-1'')
         consistency_example_runs
   \<and> map_of (calculate_llm_consistency (\<lambda>_. []) consistency_example_primary
               consistency_example_runs) ''invoice_number'' = Some 1
   \<and> list_all (\<lambda>run. map_of (flatten (\<lambda>_. []) run) ''memo'' = None) consistency_example_runs
   \<and> map_of (calculate_llm_consistency (\<lambda>_. []) consistency_example_primary
               consistency_example_runs) ''memo'' = Some 0
   \<and> list_all (\<lambda>f. confidence f
         = py_round2 (calculate_field_composite_confidence (name f) (value_str f) 0
                        no_failures_qa rounding_example_boxes)) rounding_example_fields"
proof -
  note t = consistency_is_match_fraction [of "\<lambda>_. []" consistency_example_primary
      consistency_example_runs no_failures_qa rounding_example_boxes]
  note u = consistency_is_match_fraction [of "\<lambda>_. []" rounding_example_data
      "[]" no_failures_qa rounding_example_boxes]
  have a: "\<forall>run\<in>set consistency_example_runs.
         map_of (flatten (\<lambda>_. []) run) ''invoice_number'' = Some ''INV-1''"
    and b: "\<forall>run\<in>set consistency_example_runs. map_of (flatten (\<lambda>_. []) run) ''memo'' = None"
    using consistency_example_values(4,5) by (simp_all add: list_all_iff)
  have c: "map_of (flatten (\<lambda>_. []) consistency_example_primary) ''invoice_number'' = Some ''INV-1''"
    and d: "map_of (flatten (\<lambda>_. []) consistency_example_primary) ''memo'' = Some ''net 30''"
    by (simp_all add: consistency_example_values(1))
  show ?thesis
    unfolding list_all_iff
    using t u a b c d consistency_example_values(3) rounding_example_result by blast
qed

subsection \<open>Grounding a value in the tokens\<close>


lemma findall_words_acc_nonempty:
  "[] \<in> set (findall_words_acc cur s) \<Longrightarrow> False"
  by (induction s arbitrary: cur) (auto split: if_splits)








subsection \<open>Validation rules\<close>

lemma py_float_errors: "py_float pfloat v = Inl e \<Longrightarrow> caught e"
  by (cases v) (auto simp: caught_def split: option.splits)

lemma is_valid_decimal_total:
  "is_valid_decimal pfloat v = Inr (case py_float pfloat v of Inl _ \<Rightarrow> False | Inr _ \<Rightarrow> True)"
  using py_float_errors [of pfloat v] by (auto simp: is_valid_decimal_def split: sum.splits)

lemma line_items_total_Inr:
  "line_items_total pfloat its = Inr s \<Longrightarrow> s = sum_of_parseable_line_totals pfloat its"
proof (induction its arbitrary: s)
  case Nil
  then show ?case by (simp add: sum_of_parseable_line_totals_def)
next
  case (Cons item rest)
  then obtain kvs where item: "item = PDict kvs"
    by (cases item) (auto simp: ebind_def)
  from Cons.prems obtain s' where rest: "line_items_total pfloat rest = Inr s'"
    and s: "s = line_total_value pfloat item + s'"
    using py_float_errors [of pfloat]
    by (auto simp: item ebind_def is_valid_decimal_total line_total_value_def
        split: sum.splits option.splits if_splits)
  show ?case
    using Cons.IH [OF rest] s by (simp add: sum_of_parseable_line_totals_def)
qed

lemma line_items_total_Inl: "line_items_total pfloat its = Inl e \<Longrightarrow> e = AttributeError"
proof (induction its)
  case Nil
  then show ?case by simp
next
  case (Cons item rest)
  show ?case
  proof (cases item)
    case (PDict kvs)
    then show ?thesis
      using Cons py_float_errors [of pfloat]
      by (auto simp: ebind_def is_valid_decimal_total split: sum.splits option.splits if_splits)
  qed (use Cons.prems in \<open>auto simp: ebind_def\<close>)
qed

lemma run_rules_Cons_Inr:
  "run_rules (r # rs) = Inr (p, f) \<Longrightarrow>
     \<exists>p1 f1 p2 f2. r = Inr (p1, f1) \<and> run_rules rs = Inr (p2, f2) \<and> p = p1 @ p2 \<and> f = f1 @ f2"
  by (auto simp: ebind_def split: sum.splits prod.splits)


lemma invoice_date_rule_ids:
  "invoice_date_rule d = Inr (p, f) \<Longrightarrow> x \<in> set p \<union> set f \<Longrightarrow> x \<notin> set sum_check_ids"
  by (auto simp: invoice_date_rule_def ebind_def sum_check_ids_def
      split: option.splits sum.splits if_splits)

lemma due_date_rule_ids:
  "due_date_rule d = Inr (p, f) \<Longrightarrow> x \<in> set p \<union> set f \<Longrightarrow> x \<notin> set sum_check_ids"
  by (auto simp: due_date_rule_def ebind_def sum_check_ids_def
      split: option.splits sum.splits if_splits)

lemma total_amount_rule_ids:
  "total_amount_rule pfloat d = Inr (p, f) \<Longrightarrow> x \<in> set p \<union> set f \<Longrightarrow> x \<notin> set sum_check_ids"
  by (auto simp: total_amount_rule_def ebind_def sum_check_ids_def
      split: option.splits sum.splits if_splits)

lemma subtotal_rule_ids:
  "optional_numeric_rule pfloat ''subtotal'' d = Inr (p, f) \<Longrightarrow> x \<in> set p \<union> set f
     \<Longrightarrow> x \<notin> set sum_check_ids"
  by (auto simp: optional_numeric_rule_def ebind_def sum_check_ids_def
      split: option.splits sum.splits if_splits)

lemma tax_amount_rule_ids:
  "optional_numeric_rule pfloat ''tax_amount'' d = Inr (p, f) \<Longrightarrow> x \<in> set p \<union> set f
     \<Longrightarrow> x \<notin> set sum_check_ids"
  by (auto simp: optional_numeric_rule_def ebind_def sum_check_ids_def
      split: option.splits sum.splits if_splits)

lemma validate_invoice_sum_ids:
  assumes "validate_invoice pfloat d = Inr (passed, failed)" "x \<in> set sum_check_ids"
  shows "\<exists>p f. line_items_sum_rule pfloat d = Inr (p, f)
           \<and> (x \<in> set passed \<longleftrightarrow> x \<in> set p) \<and> (x \<in> set failed \<longleftrightarrow> x \<in> set f)"
proof -
  from assms(1) obtain p1 f1 p2 f2 p3 f3 p4 f4 p5 f5 p6 f6 where
    r: "invoice_date_rule d = Inr (p1, f1)" "due_date_rule d = Inr (p2, f2)"
       "total_amount_rule pfloat d = Inr (p3, f3)"
       "optional_numeric_rule pfloat ''subtotal'' d = Inr (p4, f4)"
       "optional_numeric_rule pfloat ''tax_amount'' d = Inr (p5, f5)"
       "line_items_sum_rule pfloat d = Inr (p6, f6)"
    and pf: "passed = p1 @ p2 @ p3 @ p4 @ p5 @ p6" "failed = f1 @ f2 @ f3 @ f4 @ f5 @ f6"
    unfolding validate_invoice_def
    by (fastforce dest!: run_rules_Cons_Inr)
  have "x \<notin> set p1 \<union> set f1" "x \<notin> set p2 \<union> set f2" "x \<notin> set p3 \<union> set f3"
    "x \<notin> set p4 \<union> set f4" "x \<notin> set p5 \<union> set f5"
    using assms(2) invoice_date_rule_ids [OF r(1)] due_date_rule_ids [OF r(2)]
      total_amount_rule_ids [OF r(3)] subtotal_rule_ids [OF r(4)] tax_amount_rule_ids [OF r(5)]
    by blast+
  then show ?thesis using r(6) pf by auto
qed

lemma sum_rule_parsed:
  assumes "map_of d ''total_amount'' = Some tv" "py_float pfloat tv = Inr t"
    and "map_of d ''line_items'' = Some li" "py_iter li = Inr items"
    and "line_items_sum_rule pfloat d = Inr (p, f)"
  shows "(p, f) = (if \<bar>t - sum_of_parseable_line_totals pfloat items\<bar> < 0.01
                   then ([''line_items_sum_matches_total''], [])
                   else ([], [''line_items_sum_mismatch'']))"
proof (cases "line_items_total pfloat items")
  case (Inl e)
  then have "e = AttributeError" by (rule line_items_total_Inl)
  then show ?thesis
    using assms Inl by (simp add: line_items_sum_rule_def sum_check_try_def ebind_def caught_def)
next
  case (Inr s)
  then have "s = sum_of_parseable_line_totals pfloat items" by (rule line_items_total_Inr)
  then show ?thesis
    using assms Inr by (auto simp: line_items_sum_rule_def sum_check_try_def ebind_def)
qed

lemma sum_rule_missing:
  assumes "map_of d ''total_amount'' = None \<or> map_of d ''line_items'' = None"
  shows "line_items_sum_rule pfloat d = Inr ([], [''line_items_or_total_missing_for_sum_check''])"
  using assms by (auto simp: line_items_sum_rule_def split: option.splits)

lemma sum_rule_unparsed:
  assumes "map_of d ''total_amount'' = Some tv" "map_of d ''line_items'' = Some li"
    and "(\<exists>e. py_float pfloat tv = Inl e) \<or> (\<exists>e. py_iter li = Inl e)"
  shows "line_items_sum_rule pfloat d = Inr ([], [''line_items_sum_check_failed_parsing''])"
proof -
  have "py_iter li = Inl e \<Longrightarrow> caught e" for e
    by (cases li) (auto simp: caught_def)
  then show ?thesis
    using assms py_float_errors [of pfloat tv]
    by (auto simp: line_items_sum_rule_def sum_check_try_def ebind_def split: sum.splits)
qed

lemma scenario_values:
  "validate_invoice pfloat scenario_b_invoice
     = Inr ([''total_amount_numeric_valid'', ''line_items_sum_matches_total''],
            [''invoice_date_format_invalid''])"
  "validate_invoice pfloat scenario_c_invoice
     = Inr ([''total_amount_numeric_valid''],
            [''invoice_date_format_invalid'', ''line_items_sum_mismatch''])"
  by code_simp+

text \<open>
  Claim C7.  For an invoice with both \<^verbatim>\<open>total_amount\<close> and \<^verbatim>\<open>line_items\<close>, whose total parses and
  whose line items can be read, \<^verbatim>\<open>line_items_sum_matches_total\<close> passes exactly when the
  absolute difference between the parsed total and the sum of the line totals that parse is
  strictly below 0.01, and \<^verbatim>\<open>line_items_sum_mismatch\<close> fails otherwise.  Total 100.00 with
  line totals 50.00 and 50.00 passes; total 100.00 with one line total 40.00 fails.  When
  either key is missing, \<^verbatim>\<open>line_items_or_total_missing_for_sum_check\<close> is recorded and the rule
  does not pass.  (A total that does not parse is recorded as
  \<^verbatim>\<open>line_items_sum_check_failed_parsing\<close>.)
\<close>

theorem line_items_sum_rule_tolerance:
  "(\<forall>passed failed tv t li items.
      validate_invoice pfloat d = Inr (passed, failed)
      \<and> map_of d ''total_amount'' = Some tv \<and> py_float pfloat tv = Inr t
      \<and> map_of d ''line_items'' = Some li \<and> py_iter li = Inr items
      \<longrightarrow> (''line_items_sum_matches_total'' \<in> set passed
             \<longleftrightarrow> \<bar>t - sum_of_parseable_line_totals pfloat items\<bar> < 0.01)
          \<and> (''line_items_sum_mismatch'' \<in> set failed
             \<longleftrightarrow> \<not> \<bar>t - sum_of_parseable_line_totals pfloat items\<bar> < 0.01))
   \<and> (\<forall>passed failed.
        validate_invoice pfloat d = Inr (passed, failed)
        \<and> (map_of d ''total_amount'' = None \<or> map_of d ''line_items'' = None)
        \<longrightarrow> ''line_items_or_total_missing_for_sum_check'' \<in> set failed
            \<and> ''line_items_sum_matches_total'' \<notin> set passed)
   \<and> (\<exists>passed failed. validate_invoice pfloat scenario_b_invoice = Inr (passed, failed)
          \<and> ''line_items_sum_matches_total'' \<in> set passed)
   \<and> (\<exists>passed failed. validate_invoice pfloat scenario_c_invoice = Inr (passed, failed)
          \<and> ''line_items_sum_mismatch'' \<in> set failed
          \<and> ''line_items_sum_matches_total'' \<notin> set passed)
   \<and> (\<forall>passed failed tv li.
        validate_invoice pfloat d = Inr (passed, failed)
        \<and> map_of d ''total_amount'' = Some tv \<and> map_of d ''line_items'' = Some li
        \<and> ((\<exists>e. py_float pfloat tv = Inl e) \<or> (\<exists>e. py_iter li = Inl e))
        \<longrightarrow> ''line_items_sum_check_failed_parsing'' \<in> set failed
            \<and> ''line_items_sum_matches_total'' \<notin> set passed)"
proof (intro conjI allI impI)
  fix passed failed tv t li items
  assume a: "validate_invoice pfloat d = Inr (passed, failed)
      \<and> map_of d ''total_amount'' = Some tv \<and> py_float pfloat tv = Inr t
      \<and> map_of d ''line_items'' = Some li \<and> py_iter li = Inr items"
  let ?ok = "\<bar>t - sum_of_parseable_line_totals pfloat items\<bar> < 0.01"
  have v: "validate_invoice pfloat d = Inr (passed, failed)" using a by simp
  obtain p f where r: "line_items_sum_rule pfloat d = Inr (p, f)"
    and m: "''line_items_sum_matches_total'' \<in> set passed
              \<longleftrightarrow> ''line_items_sum_matches_total'' \<in> set p"
    using validate_invoice_sum_ids [OF v, of "''line_items_sum_matches_total''"]
    by (auto simp: sum_check_ids_def)
  obtain p' f' where r': "line_items_sum_rule pfloat d = Inr (p', f')"
    and m': "''line_items_sum_mismatch'' \<in> set failed \<longleftrightarrow> ''line_items_sum_mismatch'' \<in> set f'"
    using validate_invoice_sum_ids [OF v, of "''line_items_sum_mismatch''"]
    by (auto simp: sum_check_ids_def)
  have pf: "(p, f) = (if ?ok then ([''line_items_sum_matches_total''], [])
                      else ([], [''line_items_sum_mismatch'']))"
    using a r by (intro sum_rule_parsed [of d tv pfloat t li items]) simp_all
  have "p' = p" "f' = f" using r r' by simp_all
  then show "''line_items_sum_matches_total'' \<in> set passed \<longleftrightarrow> ?ok"
    and "''line_items_sum_mismatch'' \<in> set failed \<longleftrightarrow> \<not> ?ok"
    using m m' pf by (auto split: if_splits)
next
  fix passed failed
  assume a: "validate_invoice pfloat d = Inr (passed, failed)
        \<and> (map_of d ''total_amount'' = None \<or> map_of d ''line_items'' = None)"
  then have v: "validate_invoice pfloat d = Inr (passed, failed)" by simp
  have r: "line_items_sum_rule pfloat d = Inr ([], [''line_items_or_total_missing_for_sum_check''])"
    using a by (intro sum_rule_missing) simp
  show "''line_items_or_total_missing_for_sum_check'' \<in> set failed"
    using validate_invoice_sum_ids [OF v, of "''line_items_or_total_missing_for_sum_check''"] r
    by (auto simp: sum_check_ids_def)
  show "''line_items_sum_matches_total'' \<notin> set passed"
    using validate_invoice_sum_ids [OF v, of "''line_items_sum_matches_total''"] r
    by (auto simp: sum_check_ids_def)
next
  show "\<exists>passed failed. validate_invoice pfloat scenario_b_invoice = Inr (passed, failed)
          \<and> ''line_items_sum_matches_total'' \<in> set passed"
    by (simp add: scenario_values)
next
  show "\<exists>passed failed. validate_invoice pfloat scenario_c_invoice = Inr (passed, failed)
          \<and> ''line_items_sum_mismatch'' \<in> set failed
          \<and> ''line_items_sum_matches_total'' \<notin> set passed"
    by (simp add: scenario_values)
next
  fix passed failed tv li
  assume a: "validate_invoice pfloat d = Inr (passed, failed)
        \<and> map_of d ''total_amount'' = Some tv \<and> map_of d ''line_items'' = Some li
        \<and> ((\<exists>e. py_float pfloat tv = Inl e) \<or> (\<exists>e. py_iter li = Inl e))"
  then have v: "validate_invoice pfloat d = Inr (passed, failed)" by simp
  have r: "line_items_sum_rule pfloat d = Inr ([], [''line_items_sum_check_failed_parsing''])"
    using a by (intro sum_rule_unparsed [of d tv li]) simp_all
  show "''line_items_sum_check_failed_parsing'' \<in> set failed"
    using validate_invoice_sum_ids [OF v, of "''line_items_sum_check_failed_parsing''"] r
    by (auto simp: sum_check_ids_def)
  show "''line_items_sum_matches_total'' \<notin> set passed"
    using validate_invoice_sum_ids [OF v, of "''line_items_sum_matches_total''"] r
    by (auto simp: sum_check_ids_def)
qed


lemma scenario_b_facts:
  "validate_invoice (\<lambda>_. None) scenario_b_invoice
     = Inr ([''total_amount_numeric_valid'', ''line_items_sum_matches_total''],
            [''invoice_date_format_invalid''])"
  "map_of scenario_b_invoice ''total_amount'' = Some (PFloat 100)"
  "py_float (\<lambda>_. None) (PFloat 100) = Inr 100"
  "map_of scenario_b_invoice ''line_items''
     = Some (PList [PDict [(''line_total'', PFloat 50)], PDict [(''line_total'', PFloat 50)]])"
  "py_iter (PList [PDict [(''line_total'', PFloat 50)], PDict [(''line_total'', PFloat 50)]])
     = Inr [PDict [(''line_total'', PFloat 50)], PDict [(''line_total'', PFloat 50)]]"
  "validate_invoice (\<lambda>_. None) [(''total_amount'', PFloat 100)]
     = Inr ([''total_amount_numeric_valid''],
            [''invoice_date_format_invalid'', ''line_items_or_total_missing_for_sum_check''])"
  "map_of [(''total_amount'', PFloat 100)] ''line_items'' = None"
  by code_simp+

theorem line_items_sum_rule_tolerance_witness:
  "validate_invoice (\<lambda>_. None) scenario_b_invoice
     = Inr ([''total_amount_numeric_valid'', ''line_items_sum_matches_total''],
            [''invoice_date_format_invalid''])
   \<and> map_of scenario_b_invoice ''total_amount'' = Some (PFloat 100)
   \<and> py_float (\<lambda>_. None) (PFloat 100) = Inr 100
   \<and> \<bar>100 - sum_of_parseable_line_totals (\<lambda>_. None)
              [PDict [(''line_total'', PFloat 50)], PDict [(''line_total'', PFloat 50)]]\<bar> < 0.01
   \<and> validate_invoice (\<lambda>_. None) [(''total_amount'', PFloat 100)]
     = Inr ([''total_amount_numeric_valid''],
            [''invoice_date_format_invalid'', ''line_items_or_total_missing_for_sum_check''])
   \<and> map_of [(''total_amount'', PFloat 100)] ''line_items'' = None"
proof -
  note t = line_items_sum_rule_tolerance [of "\<lambda>_. None" scenario_b_invoice]
  have "''line_items_sum_matches_total''
      \<in> set [''total_amount_numeric_valid'', ''line_items_sum_matches_total'']"
    by simp
  then have "\<bar>100 - sum_of_parseable_line_totals (\<lambda>_. None)
              [PDict [(''line_total'', PFloat 50)], PDict [(''line_total'', PFloat 50)]]\<bar> < 0.01"
    using t scenario_b_facts(1-5) by blast
  then show ?thesis using scenario_b_facts by simp
qed

text \<open>
  Claim C6 says that \<^verbatim>\<open>run_validation\<close> never raises.  The code does: \<^verbatim>\<open>_is_valid_date\<close>
  catches \<^verbatim>\<open>ValueError\<close> only, so an \<^verbatim>\<open>invoice_date\<close> of \<^verbatim>\<open>None\<close> ends the call with the
  \<^verbatim>\<open>TypeError\<close> of \<^verbatim>\<open>strptime\<close>; and a medication that is not a dict ends it with the
  \<^verbatim>\<open>AttributeError\<close> of \<^verbatim>\<open>med.get\<close>.
\<close>

theorem run_validation_raises_on_none_date:
  "run_validation pfloat ''invoice'' [(''invoice_date'', PNone)] = Inl TypeError
   \<and> run_validation pfloat ''prescription''
        [(''prescription_date'', PStr ''2024-01-05''), (''medications'', PList [PStr ''aspirin''])]
       = Inl AttributeError"
  by code_simp

subsection \<open>The failure contract of the agent\<close>

lemma schema_for_unknown: "schema_for t = Some sch \<Longrightarrow> t \<noteq> ''unknown''"
  by (auto simp: schema_for_def split: if_splits)

lemma error_output_shape:
  "is_error_report (create_error_output msg code)"
  "failed_rules (report_qa (create_error_output msg code)) = Some [code]"
  "qa_notes (report_qa (create_error_output msg code)) = msg"
  by (simp_all add: is_error_report_def create_error_output_def)

text \<open>The failures that \<^verbatim>\<open>run_extraction\<close> does report: no text from the OCR step, an
  \<^verbatim>\<open>'unknown'\<close> document type, and any exception of the extraction or of the schema validation.\<close>

lemma reported_failures:
  "process_document c fp = Inl e \<Longrightarrow>
     run_extraction c fp
       = Inr (create_error_output (''Error during OCR processing: '' @ str_exn c e) ''ocr_error'')"
  "process_document c fp = Inr dd \<Longrightarrow> doc_text dd = [] \<Longrightarrow>
     run_extraction c fp = Inr (create_error_output ''OCR failed to extract text.'' ''ocr_failed'')"
  "process_document c fp = Inr dd \<Longrightarrow> doc_text dd \<noteq> [] \<Longrightarrow>
     classify_document_type c (doc_text dd) = Inr ''unknown'' \<Longrightarrow>
     run_extraction c fp
       = Inr (create_error_output ''Could not classify document type.'' ''classification_failed'')"
  "process_document c fp = Inr dd \<Longrightarrow> doc_text dd \<noteq> [] \<Longrightarrow>
     classify_document_type c (doc_text dd) = Inr t \<Longrightarrow> schema_for t = Some sch \<Longrightarrow>
     extract_document_data c (doc_text dd) sch = Inl e \<Longrightarrow>
     run_extraction c fp = Inr (extraction_error_output c e (PDict []))"
  "process_document c fp = Inr dd \<Longrightarrow> doc_text dd \<noteq> [] \<Longrightarrow>
     classify_document_type c (doc_text dd) = Inr t \<Longrightarrow> schema_for t = Some sch \<Longrightarrow>
     extract_document_data c (doc_text dd) sch = Inr raw \<Longrightarrow>
     model_validate c sch raw = Inl e \<Longrightarrow>
     run_extraction c fp = Inr (extraction_error_output c e raw)"
  using schema_for_unknown [of t sch]
  by (simp_all add: run_extraction_def extract_and_format_def ebind_def Let_def)

lemma classification_raises:
  "process_document c fp = Inr dd \<Longrightarrow> doc_text dd \<noteq> [] \<Longrightarrow> router_client c = Inl e \<Longrightarrow>
     run_extraction c fp = Inl e"
  by (simp add: run_extraction_def classify_document_type_def ebind_def Let_def)

text \<open>
  Claim C9 says that \<^verbatim>\<open>run_extraction\<close> returns an error report whenever the OCR step, the
  classification or the extraction fails.  For the classification the code does not:
  \<^verbatim>\<open>classify_document_type\<close> builds its API client before its \<^verbatim>\<open>try\<close>, and \<^verbatim>\<open>run_extraction\<close>
  calls it outside any \<^verbatim>\<open>try\<close>.  With a readable document and no API key, the exception of
  the client leaves \<^verbatim>\<open>run_extraction\<close>.  The same exception in \<^verbatim>\<open>extract_document_data\<close> is
  caught, by the handler of lines 73 and 74.
\<close>

theorem run_extraction_raises_without_client:
  "process_document no_api_key ''a.pdf'' = Inr one_page
   \<and> doc_text one_page = ''INVOICE 42''
   \<and> run_extraction no_api_key ''a.pdf'' = Inl (OtherError ''The api_key client option must be set'')
   \<and> run_extraction (no_api_key\<lparr>router_client := Inr ()\<rparr>) ''a.pdf''
       = Inr (extraction_error_output no_api_key
                (OtherError ''The api_key client option must be set'') (PDict []))"
  by code_simp

end
